theory Spec2Isabelle
  imports Main Complex_Main
begin

section \<open>Data model of the RFQM service\<close>

text \<open>
  The embedding follows \<^verbatim>\<open>src/services/rfqm_service.ts\<close>. Closed enumerations are
  datatypes, entities are records, a nullable or optional field is an \<open>option\<close>, and
  a thrown error is the left summand of a sum.
\<close>

datatype RfqmJobStatus =
    FailedEthCallFailed
  | FailedExpired
  | FailedLastLookDeclined
  | FailedPresignValidationFailed
  | FailedRevertedConfirmed
  | FailedRevertedUnconfirmed
  | FailedSignFailed
  | FailedSubmitFailed
  | FailedValidationNoCallData
  | FailedValidationNoFee
  | FailedValidationNoMakerUri
  | FailedValidationNoOrder
  | FailedValidationNoTakerSignature
  | PendingEnqueued
  | PendingProcessing
  | PendingLastLookAccepted
  | PendingSubmitted
  | SucceededConfirmed
  | SucceededUnconfirmed

text \<open>
  The status of one transaction submission. The constructors carry the prefix \<open>Tx\<close>
  because the job status above already uses the plain names.
\<close>

datatype RfqmTransactionSubmissionStatus =
    TxPresubmit
  | TxSubmitted
  | TxSucceededUnconfirmed
  | TxFailedRevertedUnconfirmed
  | TxSucceededConfirmed
  | TxFailedRevertedConfirmed

text \<open>
  A \<^verbatim>\<open>BigNumber\<close> is a decimal of arbitrary precision or the value NaN. Its
  \<^verbatim>\<open>times\<close>, \<^verbatim>\<open>plus\<close>, \<^verbatim>\<open>minus\<close> and comparisons are exact on
  finite values, so a finite value is a rational. NaN absorbs multiplication and makes
  every comparison false. Values that the code only ever builds from finite numbers
  (amounts, fees, the expiry stored on a job) are plain rationals below.
\<close>

datatype BigNumber = NaN | Num rat

fun bn_times :: "BigNumber \<Rightarrow> rat \<Rightarrow> BigNumber" where
  "bn_times NaN k = NaN"
| "bn_times (Num x) k = Num (x * k)"

fun bn_isNaN :: "BigNumber \<Rightarrow> bool" where
  "bn_isNaN NaN = True"
| "bn_isNaN (Num x) = False"

fun bn_lte :: "BigNumber \<Rightarrow> rat \<Rightarrow> bool" where
  "bn_lte NaN k = False"
| "bn_lte (Num x) k = (x \<le> k)"

record Signature =
  signatureType :: nat
  sig_v :: nat
  sig_r :: string
  sig_s :: string

text \<open>
  The string fields of a stored OTC order. The source wraps them as
  \<^verbatim>\<open>{ type: 'otc', order: fields }\<close>; the wrapper has one variant and is left out,
  so \<^verbatim>\<open>job.order.order.taker\<close> is \<open>taker\<close> of the job's order.
\<close>

record StoredOtcOrder =
  chainId :: string
  expiryAndNonce :: string
  maker :: string
  makerAmount :: rat
  makerToken :: string
  taker :: string
  takerAmount :: rat
  takerToken :: string
  txOrigin :: string
  verifyingContract :: string

record StoredFee =
  feeToken :: string
  feeAmount :: rat
  feeType :: string

text \<open>A JavaScript number that holds an integer or NaN, the result of \<^verbatim>\<open>parseInt\<close>.\<close>

datatype JsInteger = NotANumber | IntValue int

text \<open>
  A stored quote and a job. \<^verbatim>\<open>submitTakerSignedOtcOrderAsync\<close> builds the job from
  the quote by copying the seven fields of the quote, so the job record extends the
  quote record with the fields of its own. A field that the source tests against
  \<^verbatim>\<open>null\<close> or \<^verbatim>\<open>undefined\<close> is an \<open>option\<close>.
\<close>

record RfqmV2QuoteEntity =
  affiliateAddress :: "string option"
  fee :: "StoredFee option"
  integratorId :: "string option"
  isUnwrap :: bool
  makerUri :: "string option"
  order :: "StoredOtcOrder option"
  orderHash :: string

record RfqmV2JobEntity = RfqmV2QuoteEntity +
  expiry :: rat
  lastLookResult :: "bool option"
  llRejectPriceDifferenceBps :: "JsInteger option"
  makerSignature :: "Signature option"
  status :: RfqmJobStatus
  takerSignature :: "Signature option"
  workerAddress :: "string option"

definition ONE_SECOND_MS :: rat where
  "ONE_SECOND_MS = 1000"

definition ONE_MINUTE_S :: rat where
  "ONE_MINUTE_S = 60"

section \<open>Job validation\<close>

text \<open>
  \<^verbatim>\<open>RfqmService.validateJob(job, now)\<close>, lines 200 to 229. The decoder
  \<^verbatim>\<open>OtcOrder.parseExpiryAndNonce\<close> belongs to a library outside the sources; its
  composition with \<^verbatim>\<open>new BigNumber(string)\<close> is the parameter \<open>decodeExpiry\<close>, from
  the packed string to the decoded expiry in seconds. The decoder turns its argument
  into hexadecimal digits and throws when that fails, so its answer is an error message
  or a \<^verbatim>\<open>BigNumber\<close>; a throw on line 219 leaves \<^verbatim>\<open>validateJob\<close> as it is.
  \<open>now\<close> is \<^verbatim>\<open>now.getTime()\<close>, milliseconds since the epoch. The result
  \<open>Inr None\<close> is the source's \<^verbatim>\<open>null\<close>.
\<close>

definition validateJob ::
  "(string \<Rightarrow> string + BigNumber) \<Rightarrow> RfqmV2JobEntity \<Rightarrow> int \<Rightarrow> string + RfqmJobStatus option" where
  "validateJob decodeExpiry job now =
     (if makerUri job = None then Inr (Some FailedValidationNoMakerUri)
      else case order job of
        None \<Rightarrow> Inr (Some FailedValidationNoOrder)
      | Some otcOrderStringFields \<Rightarrow>
          if fee job = None then Inr (Some FailedValidationNoFee)
          else
            (case decodeExpiry (expiryAndNonce otcOrderStringFields) of
               Inl errorMessage \<Rightarrow> Inl errorMessage
             | Inr decoded \<Rightarrow>
                 (let expiryTimeMs = bn_times decoded ONE_SECOND_MS
                  in if bn_isNaN expiryTimeMs \<or> bn_lte expiryTimeMs (of_int now)
                     then Inr (Some FailedExpired)
                     else if takerSignature job = None
                          then Inr (Some FailedValidationNoTakerSignature)
                          else Inr None)))"

text \<open>Sample values used to instantiate the theorems below.\<close>

definition sampleSignature :: Signature where
  "sampleSignature = \<lparr> signatureType = 3, sig_v = 27, sig_r = ''0x01'', sig_s = ''0x02'' \<rparr>"

definition sampleOrder :: StoredOtcOrder where
  "sampleOrder = \<lparr> chainId = ''1'', expiryAndNonce = ''packed'', maker = ''0xMaker'',
     makerAmount = 100, makerToken = ''0xDai'', taker = ''0xTaker'', takerAmount = 300,
     takerToken = ''0xUsdc'', txOrigin = ''0xRegistry'', verifyingContract = ''0xProxy'' \<rparr>"

definition sampleFee :: StoredFee where
  "sampleFee = \<lparr> feeToken = ''0xWeth'', feeAmount = 5, feeType = ''fixed'' \<rparr>"

definition sampleJob :: RfqmV2JobEntity where
  "sampleJob = \<lparr> affiliateAddress = None, fee = Some sampleFee,
     integratorId = Some ''integrator'', isUnwrap = False, makerUri = Some ''https://mm'',
     order = Some sampleOrder, orderHash = ''0xHash'', expiry = 2000, lastLookResult = None,
     llRejectPriceDifferenceBps = None, makerSignature = None, status = PendingEnqueued,
     takerSignature = Some sampleSignature, workerAddress = None \<rparr>"

text \<open>
  The decoder on the packed fields of the samples. The field of the sample order
  decodes to the expiry 2000 s. The field \<open>not a number\<close> is one that
  \<^verbatim>\<open>new BigNumber\<close> reads as NaN: the library decoder throws on it while it
  converts the value to hexadecimal digits.
\<close>

definition invalidHex :: string where
  "invalidHex = ''Cannot convert string to buffer. toBuffer only supports 0x-prefixed hex strings''"

definition sampleDecoder :: "string \<Rightarrow> string + BigNumber" where
  "sampleDecoder str = (if str = ''not a number'' then Inl invalidHex else Inr (Num 2000))"

text \<open>A complete job whose packed expiry is not a number.\<close>

definition unparsableJob :: RfqmV2JobEntity where
  "unparsableJob = sampleJob\<lparr>order := Some (sampleOrder\<lparr>expiryAndNonce := ''not a number''\<rparr>)\<rparr>"

section \<open>Transaction submissions and the job store\<close>

record GasFees =
  maxFeePerGas :: rat
  maxPriorityFeePerGas :: rat

text \<open>
  \<^verbatim>\<open>_submitTransactionAsync\<close> builds a submission as
  \<^verbatim>\<open>{ ...gasFees, transactionHash, orderHash, createdAt, from, to, nonce, status }\<close>:
  the record extends the gas fees. \<open>createdAt\<close> is in milliseconds. The prefix
  \<open>tx_\<close> marks the fields whose plain name is taken by the job or by Isabelle.
\<close>

record RfqmV2TransactionSubmissionEntity = GasFees +
  transactionHash :: "string option"
  tx_orderHash :: string
  createdAt :: int
  tx_from :: string
  tx_to :: string
  nonce :: nat
  tx_status :: RfqmTransactionSubmissionStatus

text \<open>
  Modelled from the spec: the Job Store (\<^verbatim>\<open>RfqmDbUtils\<close>) is outside the sources.
  Following section 6 of the specification it is a table of quotes, a table of jobs and
  a table of submissions, read by order hash and by status.
\<close>

record Db =
  quotes :: "RfqmV2QuoteEntity list"
  jobs :: "RfqmV2JobEntity list"
  submissions :: "RfqmV2TransactionSubmissionEntity list"

definition findV2QuoteByOrderHashAsync :: "Db \<Rightarrow> string \<Rightarrow> RfqmV2QuoteEntity option" where
  "findV2QuoteByOrderHashAsync db h = find (\<lambda>q. orderHash q = h) (quotes db)"

definition findV2JobByOrderHashAsync :: "Db \<Rightarrow> string \<Rightarrow> RfqmV2JobEntity option" where
  "findV2JobByOrderHashAsync db h = find (\<lambda>j. orderHash j = h) (jobs db)"

definition findV2JobsWithStatusesAsync :: "Db \<Rightarrow> RfqmJobStatus list \<Rightarrow> RfqmV2JobEntity list" where
  "findV2JobsWithStatusesAsync db statuses = filter (\<lambda>j. status j \<in> set statuses) (jobs db)"

definition findV2TransactionSubmissionsByOrderHashAsync ::
  "Db \<Rightarrow> string \<Rightarrow> RfqmV2TransactionSubmissionEntity list" where
  "findV2TransactionSubmissionsByOrderHashAsync db h =
     filter (\<lambda>t. tx_orderHash t = h) (submissions db)"

section \<open>Order status\<close>

record TransactionData =
  hash :: string
  timestamp :: int

record StatusResponse =
  response_status :: string
  transactions :: "TransactionData list"

text \<open>The two errors that \<^verbatim>\<open>getOrderStatusAsync\<close> throws, with the values they print.\<close>

datatype StatusError =
    ExpectedExactlyOneSuccessful string nat
  | SuccessfulWithoutHash

text \<open>
  \<^verbatim>\<open>hash ? { hash, timestamp } : null\<close>: a hash that is null or the empty string is
  falsy.
\<close>

definition transformSubmission :: "RfqmV2TransactionSubmissionEntity \<Rightarrow> TransactionData option" where
  "transformSubmission submission =
     (case transactionHash submission of
        None \<Rightarrow> None
      | Some h \<Rightarrow> if h = [] then None else Some \<lparr> hash = h, timestamp = createdAt submission \<rparr>)"

definition transformSubmissions ::
  "RfqmV2TransactionSubmissionEntity list \<Rightarrow> TransactionData list" where
  "transformSubmissions txs =
     concat (map (\<lambda>t. case transformSubmission t of None \<Rightarrow> [] | Some d \<Rightarrow> [d]) txs)"

definition isSuccessfulSubmission :: "RfqmV2TransactionSubmissionEntity \<Rightarrow> bool" where
  "isSuccessfulSubmission t =
     (tx_status t = TxSucceededUnconfirmed \<or> tx_status t = TxSucceededConfirmed)"

text \<open>
  \<^verbatim>\<open>getOrderStatusAsync(orderHash)\<close>, lines 638 to 718; \<open>now\<close> is
  \<^verbatim>\<open>Date.now()\<close>. The \<^verbatim>\<open>default\<close> branch of the switch is unreachable, every
  status being listed.
\<close>

definition getOrderStatusAsync :: "Db \<Rightarrow> int \<Rightarrow> string \<Rightarrow> StatusError + StatusResponse option" where
  "getOrderStatusAsync db now h =
     (case findV2JobByOrderHashAsync db h of
        None \<Rightarrow> Inr None
      | Some job \<Rightarrow>
          if status job = PendingEnqueued \<and> expiry job * ONE_SECOND_MS < of_int now
          then Inr (Some \<lparr> response_status = ''failed'', transactions = [] \<rparr>)
          else
            (let transactionSubmissions = findV2TransactionSubmissionsByOrderHashAsync db h;
                pending = Inr (Some \<lparr> response_status = ''pending'', transactions = [] \<rparr>);
                failed = Inr (Some \<lparr> response_status = ''failed'',
                                      transactions = transformSubmissions transactionSubmissions \<rparr>);
                succeeded =
                  (let successfulTransactions = filter isSuccessfulSubmission transactionSubmissions
                   in if length successfulTransactions \<noteq> 1
                      then Inl (ExpectedExactlyOneSuccessful h (length successfulTransactions))
                      else (case transformSubmission (hd successfulTransactions) of
                              None \<Rightarrow> Inl SuccessfulWithoutHash
                            | Some successfulTransactionData \<Rightarrow>
                                Inr (Some \<lparr> response_status =
                                               (if status job = SucceededUnconfirmed
                                                then ''succeeded'' else ''confirmed''),
                                             transactions = [successfulTransactionData] \<rparr>)))
            in case status job of
                 PendingEnqueued \<Rightarrow> pending
               | PendingProcessing \<Rightarrow> pending
               | PendingLastLookAccepted \<Rightarrow> pending
               | PendingSubmitted \<Rightarrow>
                   Inr (Some \<lparr> response_status = ''submitted'',
                                transactions = transformSubmissions transactionSubmissions \<rparr>)
               | FailedEthCallFailed \<Rightarrow> failed
               | FailedExpired \<Rightarrow> failed
               | FailedLastLookDeclined \<Rightarrow> failed
               | FailedPresignValidationFailed \<Rightarrow> failed
               | FailedRevertedConfirmed \<Rightarrow> failed
               | FailedRevertedUnconfirmed \<Rightarrow> failed
               | FailedSignFailed \<Rightarrow> failed
               | FailedSubmitFailed \<Rightarrow> failed
               | FailedValidationNoCallData \<Rightarrow> failed
               | FailedValidationNoFee \<Rightarrow> failed
               | FailedValidationNoMakerUri \<Rightarrow> failed
               | FailedValidationNoOrder \<Rightarrow> failed
               | FailedValidationNoTakerSignature \<Rightarrow> failed
               | SucceededConfirmed \<Rightarrow> succeeded
               | SucceededUnconfirmed \<Rightarrow> succeeded))"

definition sampleSubmission :: RfqmV2TransactionSubmissionEntity where
  "sampleSubmission = \<lparr> maxFeePerGas = 130000000000, maxPriorityFeePerGas = 2000000000,
     transactionHash = Some ''0xTx1'', tx_orderHash = ''0xHash'', createdAt = 1500000,
     tx_from = ''0xWorker'', tx_to = ''0xProxy'', nonce = 7, tx_status = TxSucceededConfirmed \<rparr>"

definition sampleDb :: "RfqmV2TransactionSubmissionEntity list \<Rightarrow> Db" where
  "sampleDb txs = \<lparr> quotes = [], jobs = [sampleJob\<lparr>status := SucceededConfirmed\<rparr>],
     submissions = txs \<rparr>"

section \<open>The watch loop of submitJobToChainAsync\<close>

definition MAX_PRIORITY_FEE_PER_GAS_CAP :: rat where
  "MAX_PRIORITY_FEE_PER_GAS_CAP = 128000000000"

text \<open>
  The multipliers are the JavaScript numbers 1.5 and 1.1; \<^verbatim>\<open>multipliedBy\<close> reads a
  number through its decimal string, so the factors are exactly 3/2 and 11/10.
\<close>

definition MAX_PRIORITY_FEE_PER_GAS_MULTIPLIER :: rat where
  "MAX_PRIORITY_FEE_PER_GAS_MULTIPLIER = 3 / 2"

definition MAX_FEE_PER_GAS_MULTIPLIER :: rat where
  "MAX_FEE_PER_GAS_MULTIPLIER = 11 / 10"

text \<open>
  Modelled from the spec: the class \<^verbatim>\<open>SubmissionContext\<close> is outside the sources.
  Following section 3 of the specification it is an aggregate over the ordered list of
  a job's submissions that exposes the most recent fee parameters
  (\<^verbatim>\<open>maxGasFees\<close>) and the transaction type; \<^verbatim>\<open>addTransaction\<close> appends a
  submission, whose fees become the most recent ones. The constructor is only called
  with a non-empty list.
\<close>

record SubmissionContext =
  ctx_transactions :: "RfqmV2TransactionSubmissionEntity list"
  transactionType :: nat
  maxGasFees :: GasFees

definition feesOf :: "RfqmV2TransactionSubmissionEntity \<Rightarrow> GasFees" where
  "feesOf t = \<lparr> maxFeePerGas = maxFeePerGas t, maxPriorityFeePerGas = maxPriorityFeePerGas t \<rparr>"

definition newSubmissionContext ::
  "nat \<Rightarrow> RfqmV2TransactionSubmissionEntity list \<Rightarrow> SubmissionContext" where
  "newSubmissionContext ty txs =
     \<lparr> ctx_transactions = txs, transactionType = ty, maxGasFees = feesOf (last txs) \<rparr>"

definition addTransaction ::
  "SubmissionContext \<Rightarrow> RfqmV2TransactionSubmissionEntity \<Rightarrow> SubmissionContext" where
  "addTransaction ctx t =
     ctx\<lparr> ctx_transactions := ctx_transactions ctx @ [t], maxGasFees := feesOf t \<rparr>"

text \<open>What one pass through the \<^verbatim>\<open>PendingSubmitted\<close> case of the switch decides.\<close>

datatype WatchAction =
    Return RfqmJobStatus
  | KeepWatching
  | Resubmit GasFees
  | Throw string

text \<open>
  Lines 1400 to 1456, up to the call of \<^verbatim>\<open>_submitTransactionAsync\<close>. \<open>now\<close> is
  \<^verbatim>\<open>new Date().getTime()\<close>; the quotient \<^verbatim>\<open>now / ONE_SECOND_MS\<close> has at most
  three decimals and thirteen digits, which the conversion of a number to a
  \<^verbatim>\<open>BigNumber\<close> keeps exactly. \<open>gasPrice\<close> is the answer of
  \<^verbatim>\<open>getGasPriceEstimationAsync\<close>, an error message when it throws.
  \<open>KeepWatching\<close> is the \<^verbatim>\<open>continue\<close> of the source: no transaction is
  submitted in this pass.
\<close>

definition pendingSubmittedCase ::
  "rat \<Rightarrow> int \<Rightarrow> string + rat \<Rightarrow> SubmissionContext \<Rightarrow> WatchAction" where
  "pendingSubmittedCase jobExpiry now gasPrice submissionContext =
     (let nowSeconds = of_int now / ONE_SECOND_MS;
          secondsPastExpiration = nowSeconds - jobExpiry
      in if secondsPastExpiration > ONE_MINUTE_S * 2 then Return FailedExpired
         else if secondsPastExpiration > 0 then KeepWatching
         else (case gasPrice of
                 Inl errorMessage \<Rightarrow> Throw errorMessage
               | Inr newGasPriceEstimate \<Rightarrow>
                   if transactionType submissionContext = 0
                   then Throw ''Non-EIP-1559 transactions are not implemented''
                   else
                     (let oldMaxFeePerGas = maxFeePerGas (maxGasFees submissionContext);
                          oldMaxPriorityFeePerGas = maxPriorityFeePerGas (maxGasFees submissionContext)
                      in if oldMaxFeePerGas \<ge> MAX_PRIORITY_FEE_PER_GAS_CAP then KeepWatching
                         else
                           (let newMaxPriorityFeePerGas =
                                  oldMaxPriorityFeePerGas * MAX_PRIORITY_FEE_PER_GAS_MULTIPLIER;
                                newMaxFeePerGas =
                                  max (oldMaxFeePerGas * MAX_FEE_PER_GAS_MULTIPLIER)
                                      (newGasPriceEstimate * 2 + newMaxPriorityFeePerGas)
                            in Resubmit \<lparr> maxFeePerGas = newMaxFeePerGas,
                                          maxPriorityFeePerGas = newMaxPriorityFeePerGas \<rparr>))))"

text \<open>\<^verbatim>\<open>/nonce too low/.test(errorMessage)\<close>: the message contains the phrase.\<close>

fun containsPhrase :: "string \<Rightarrow> string \<Rightarrow> bool" where
  "containsPhrase phrase [] = (phrase = [])"
| "containsPhrase phrase (c # cs) =
     (take (length phrase) (c # cs) = phrase \<or> containsPhrase phrase cs)"

definition isNonceTooLow :: "string \<Rightarrow> bool" where
  "isNonceTooLow errorMessage = containsPhrase ''nonce too low'' errorMessage"

text \<open>
  What the outside world answers during one pass of the loop: the job status that
  \<^verbatim>\<open>_checkSubmissionMapReceiptsAndUpdateDbAsync\<close> derives from a mined receipt
  (\<open>None\<close> when no receipt is found), the clock, the gas price estimate, and the
  outcome of broadcasting a transaction (an error message or the transaction hash).
\<close>

record WatchObservation =
  minedReceipt :: "RfqmJobStatus option"
  obs_now :: int
  obs_gasPrice :: "string + rat"
  obs_broadcast :: "string + string"

text \<open>
  \<^verbatim>\<open>_checkSubmissionMapReceiptsAndUpdateDbAsync\<close>, lines 1588 to 1631: without a
  receipt the job is still PendingSubmitted; with one, the status is the one that the
  submission context derives from the receipt. The latency metric and the writes of the
  new statuses to the store are left out, no claim being about them.
\<close>

definition checkSubmissionMapReceiptsAndUpdateDbAsync :: "RfqmJobStatus option \<Rightarrow> RfqmJobStatus" where
  "checkSubmissionMapReceiptsAndUpdateDbAsync receipt =
     (case receipt of None \<Rightarrow> PendingSubmitted | Some jobStatus \<Rightarrow> jobStatus)"

text \<open>
  \<^verbatim>\<open>transformTxDataToTransactionRequest\<close> (rfq_blockchain_utils.ts, lines 455 to
  493) on the options of \<^verbatim>\<open>_submitTransactionAsync\<close>, which carry no gas price:
  the request is of type 2 and both fees go through
  \<^verbatim>\<open>BigInt(fee.toString())\<close>, which throws a SyntaxError on a fee that is not a
  whole number. The message of the error names the fee; the number is left out here.
\<close>

definition isInteger :: "rat \<Rightarrow> bool" where
  "isInteger x = (of_int \<lfloor>x\<rfloor> = x)"

definition cannotConvert :: string where
  "cannotConvert = ''Cannot convert to a BigInt''"

definition transformTxDataToTransactionRequest :: "GasFees \<Rightarrow> string + GasFees" where
  "transformTxDataToTransactionRequest txOptions =
     (if \<not> isInteger (maxFeePerGas txOptions) then Inl cannotConvert
      else if \<not> isInteger (maxPriorityFeePerGas txOptions) then Inl cannotConvert
      else Inr txOptions)"

text \<open>
  \<^verbatim>\<open>_submitTransactionAsync\<close>, lines 1636 to 1703: the request is built, signed,
  recorded and broadcast, and the entity returned carries the gas fees and the nonce
  the function was called with. \<open>broadcast\<close> is the transaction hash that the
  broadcast returns, or the message of the error that the signing, the store or the
  broadcast throws. The writes of the entity to the store are left out.
\<close>

definition submitTransactionAsync ::
  "string \<Rightarrow> string \<Rightarrow> string \<Rightarrow> GasFees \<Rightarrow> nat \<Rightarrow> int \<Rightarrow> string + string
     \<Rightarrow> string + RfqmV2TransactionSubmissionEntity" where
  "submitTransactionAsync h worker proxy gasFees n now broadcast =
     (case transformTxDataToTransactionRequest gasFees of
        Inl errorMessage \<Rightarrow> Inl errorMessage
      | Inr transactionRequest \<Rightarrow>
          (case broadcast of
             Inl errorMessage \<Rightarrow> Inl errorMessage
           | Inr transactionHashFromSubmit \<Rightarrow>
               Inr \<lparr> maxFeePerGas = maxFeePerGas gasFees,
                     maxPriorityFeePerGas = maxPriorityFeePerGas gasFees,
                     transactionHash = Some transactionHashFromSubmit, tx_orderHash = h,
                     createdAt = now, tx_from = worker, tx_to = proxy, nonce = n,
                     tx_status = TxSubmitted \<rparr>))"

text \<open>
  The loop \<^verbatim>\<open>while (true)\<close>, lines 1389 to 1514, over the answers of the outside
  world, one per pass. The result \<open>None\<close> says that the answers ran out with the
  loop still watching; \<open>Some (Inl e)\<close> is a thrown error and \<open>Some (Inr s)\<close> the
  returned status. The context is returned as the loop left it.
\<close>

fun watchLoop ::
  "RfqmV2JobEntity \<Rightarrow> string \<Rightarrow> string \<Rightarrow> nat \<Rightarrow> SubmissionContext \<Rightarrow> WatchObservation list
     \<Rightarrow> SubmissionContext \<times> (string + RfqmJobStatus) option" where
  "watchLoop job worker proxy n ctx [] = (ctx, None)"
| "watchLoop job worker proxy n ctx (ob # obs) =
     (case checkSubmissionMapReceiptsAndUpdateDbAsync (minedReceipt ob) of
        PendingSubmitted \<Rightarrow>
          (case pendingSubmittedCase (expiry job) (obs_now ob) (obs_gasPrice ob) ctx of
             Return jobStatus \<Rightarrow> (ctx, Some (Inr jobStatus))
           | KeepWatching \<Rightarrow> watchLoop job worker proxy n ctx obs
           | Throw errorMessage \<Rightarrow> (ctx, Some (Inl errorMessage))
           | Resubmit gasFees \<Rightarrow>
               (case submitTransactionAsync (orderHash job) worker proxy gasFees n (obs_now ob)
                       (obs_broadcast ob) of
                  Inr newTransaction \<Rightarrow>
                    watchLoop job worker proxy n (addTransaction ctx newTransaction) obs
                | Inl errorMessage \<Rightarrow>
                    if isNonceTooLow errorMessage then watchLoop job worker proxy n ctx obs
                    else (ctx, Some (Inl errorMessage))))
      | FailedRevertedUnconfirmed \<Rightarrow> watchLoop job worker proxy n ctx obs
      | SucceededUnconfirmed \<Rightarrow> watchLoop job worker proxy n ctx obs
      | FailedRevertedConfirmed \<Rightarrow> (ctx, Some (Inr FailedRevertedConfirmed))
      | SucceededConfirmed \<Rightarrow> (ctx, Some (Inr SucceededConfirmed))
      | _ \<Rightarrow> (ctx, Some (Inl ''unreachable'')))"

definition sampleContext :: SubmissionContext where
  "sampleContext = newSubmissionContext 2
     [sampleSubmission\<lparr>maxFeePerGas := 42000000000, tx_status := TxSubmitted\<rparr>]"

definition richContext :: SubmissionContext where
  "richContext = newSubmissionContext 2 [sampleSubmission\<lparr>tx_status := TxSubmitted\<rparr>]"

definition sampleObservation :: WatchObservation where
  "sampleObservation = \<lparr> minedReceipt = None, obs_now = 1000000,
     obs_gasPrice = Inr 30000000000, obs_broadcast = Inr ''0xTx2'' \<rparr>"

section \<open>The price of a quote\<close>

definition PRICE_DECIMAL_PLACES :: nat where
  "PRICE_DECIMAL_PLACES = 6"

text \<open>
  \<^verbatim>\<open>x.decimalPlaces(dp, BigNumber.ROUND_DOWN)\<close>: the value is cut toward zero to
  \<open>dp\<close> decimal places.
\<close>

definition decimalPlacesRoundDown :: "nat \<Rightarrow> rat \<Rightarrow> rat" where
  "decimalPlacesRoundDown dp x =
     (if x \<ge> 0 then of_int \<lfloor>x * 10 ^ dp\<rfloor> / 10 ^ dp
      else - (of_int \<lfloor>- x * 10 ^ dp\<rfloor> / 10 ^ dp))"

text \<open>
  \<^verbatim>\<open>x.div(y)\<close>: the quotient is rounded to the configured number of decimal places,
  half away from zero (the default rounding mode). The configured number is set by
  \<^verbatim>\<open>@0x/utils\<close>, outside the sources, and is the parameter \<open>places\<close>. A division by
  zero gives a value that is not finite, \<open>None\<close> here.
\<close>

definition roundHalfUp :: "nat \<Rightarrow> rat \<Rightarrow> rat" where
  "roundHalfUp places x =
     (if x \<ge> 0 then of_int \<lfloor>x * 10 ^ places + 1 / 2\<rfloor> / 10 ^ places
      else - (of_int \<lfloor>- x * 10 ^ places + 1 / 2\<rfloor> / 10 ^ places))"

definition bn_div :: "nat \<Rightarrow> rat \<Rightarrow> rat \<Rightarrow> rat option" where
  "bn_div places x y = (if y = 0 then None else Some (roundHalfUp places (x / y)))"

text \<open>\<^verbatim>\<open>Web3Wrapper.toUnitAmount(amount, decimals)\<close>: the amount over ten to the decimals.\<close>

definition toUnitAmount :: "nat \<Rightarrow> rat \<Rightarrow> nat \<Rightarrow> rat option" where
  "toUnitAmount places amount decimals = bn_div places amount (10 ^ decimals)"

text \<open>
  The block \<^verbatim>\<open>// Prepare the price\<close> of \<^verbatim>\<open>fetchIndicativeQuoteAsync\<close> (lines 408
  to 414) and of \<^verbatim>\<open>fetchFirmQuoteAsync\<close> (lines 525 to 531), the same code on the
  amounts of the best quote.
\<close>

definition roundedPrice :: "nat \<Rightarrow> bool \<Rightarrow> rat \<Rightarrow> rat \<Rightarrow> nat \<Rightarrow> nat \<Rightarrow> rat option" where
  "roundedPrice places isSelling bestMakerAmount bestTakerAmount makerTokenDecimals takerTokenDecimals =
     (case toUnitAmount places bestMakerAmount makerTokenDecimals of
        None \<Rightarrow> None
      | Some makerAmountInUnit \<Rightarrow>
          (case toUnitAmount places bestTakerAmount takerTokenDecimals of
             None \<Rightarrow> None
           | Some takerAmountInUnit \<Rightarrow>
               (case (if isSelling then bn_div places makerAmountInUnit takerAmountInUnit
                      else bn_div places takerAmountInUnit makerAmountInUnit) of
                  None \<Rightarrow> None
                | Some price \<Rightarrow> Some (decimalPlacesRoundDown (PRICE_DECIMAL_PLACES + 1) price))))"

section \<open>The collaborators of the service\<close>

text \<open>
  An \<^verbatim>\<open>OtcOrder\<close> is the stored order with the expiry that the constructor of the
  order decodes from the packed field.
\<close>

record OtcOrder = StoredOtcOrder +
  otc_expiry :: BigNumber

fun bn_gt :: "BigNumber \<Rightarrow> rat \<Rightarrow> bool" where
  "bn_gt NaN k = False"
| "bn_gt (Num x) k = (x > k)"

record PriceResponse =
  price_makerAmount :: rat
  price_takerAmount :: rat

text \<open>
  Everything the service asks of the code outside the sources and of the outside world,
  as the answers it gets. A function is a pure helper of a library; the other fields
  are the answers of a remote party, an error message when the call throws.
  \<open>signV2Async\<close> and \<open>estimateGas\<close> answer the attempt of the given number,
  counted from 0; \<open>storeFails\<close> says whether the write to the job store made after
  that many events fails. \<open>parseIntToPrecision1\<close> is
  \<^verbatim>\<open>parseInt(x.toPrecision(1), 10)\<close> on a finite \<open>x\<close>.
\<close>

record Env =
  parseExpiry :: "string \<Rightarrow> string + BigNumber"
  storedOtcOrderToOtcOrder :: "StoredOtcOrder option \<Rightarrow> string + OtcOrder"
  getHash :: "OtcOrder \<Rightarrow> string"
  padSignature :: "Signature \<Rightarrow> Signature"
  getSignerFromHash :: "string \<Rightarrow> Signature \<Rightarrow> string"
  parseIntToPrecision1 :: "rat \<Rightarrow> int"
  DECIMAL_PLACES :: nat
  RFQM_MINIMUM_EXPIRY_DURATION_MS :: rat
  getTokenBalancesAsync :: "string + rat \<times> rat"
  signV2Async :: "nat \<Rightarrow> string + Signature option"
  getPriceV2Async :: "string + PriceResponse option"
  isValidOrderSignerAsync :: "string \<Rightarrow> string \<Rightarrow> string + bool"
  estimateGas :: "nat \<Rightarrow> string + nat"
  storeFails :: "nat \<Rightarrow> bool"
  enqueueFails :: bool

text \<open>What the service does to the outside world, in the order in which it does it.\<close>

datatype Event =
    JobWritten RfqmV2JobEntity
  | JobUpdated RfqmV2JobEntity
  | StoreFailed
  | Enqueued string
  | BalancesRequested
  | SignRequested
  | PriceRequested
  | SignerChecked
  | GasEstimated

record World =
  store :: Db
  queue :: "string list"
  events :: "Event list"

text \<open>
  Modelled from the spec: \<^verbatim>\<open>writeV2JobAsync\<close> and \<^verbatim>\<open>updateRfqmJobAsync\<close> of the
  Job Store are outside the sources. Following section 6 of the specification,
  writing a job is an insert that fails if the hash exists, and updating a job is a
  full overwrite of the row with that hash. Either can also fail with the store.
\<close>

definition writeV2JobAsync :: "Env \<Rightarrow> RfqmV2JobEntity \<Rightarrow> World \<Rightarrow> World \<times> bool" where
  "writeV2JobAsync env job w =
     (if storeFails env (length (events w)) \<or> list_ex (\<lambda>j. orderHash j = orderHash job) (jobs (store w))
      then (w\<lparr>events := events w @ [StoreFailed]\<rparr>, False)
      else (w\<lparr>store := (store w)\<lparr>jobs := jobs (store w) @ [job]\<rparr>,
              events := events w @ [JobWritten job]\<rparr>, True))"

definition overwriteJob :: "RfqmV2JobEntity \<Rightarrow> RfqmV2JobEntity list \<Rightarrow> RfqmV2JobEntity list" where
  "overwriteJob job rows =
     (if list_ex (\<lambda>j. orderHash j = orderHash job) rows
      then map (\<lambda>j. if orderHash j = orderHash job then job else j) rows
      else rows @ [job])"

definition updateRfqmJobAsync :: "Env \<Rightarrow> RfqmV2JobEntity \<Rightarrow> World \<Rightarrow> World \<times> bool" where
  "updateRfqmJobAsync env job w =
     (if storeFails env (length (events w))
      then (w\<lparr>events := events w @ [StoreFailed]\<rparr>, False)
      else (w\<lparr>store := (store w)\<lparr>jobs := overwriteJob job (jobs (store w))\<rparr>,
              events := events w @ [JobUpdated job]\<rparr>, True))"

text \<open>\<^verbatim>\<open>_enqueueJobAsync\<close>, lines 1705 to 1714.\<close>

definition enqueueJobAsync :: "Env \<Rightarrow> string \<Rightarrow> World \<Rightarrow> World \<times> bool" where
  "enqueueJobAsync env h w =
     (if enqueueFails env then (w, False)
      else (w\<lparr>queue := queue w @ [h], events := events w @ [Enqueued h]\<rparr>, True))"

section \<open>Submission of a taker-signed order\<close>

text \<open>\<^verbatim>\<open>toLowerCase\<close> on the ASCII letters, which is all an address holds.\<close>

definition lowerChar :: "char \<Rightarrow> char" where
  "lowerChar c =
     (let k = (of_char c :: nat) in if 65 \<le> k \<and> k \<le> 90 then char_of (k + 32) else c)"

definition toLowerCase :: "string \<Rightarrow> string" where
  "toLowerCase str = map lowerChar str"

datatype ApiError =
    NotFoundError string
  | ValidationError string string
  | TooManyRequestsError string
  | InternalServerError string
  | ThrownError string

record OtcOrderSubmitRfqmSignedQuoteParams =
  p_order :: OtcOrder
  p_signature :: Signature

text \<open>
  \<^verbatim>\<open>x.order?.order.taker.toLowerCase()\<close>: undefined when the order is missing, so two
  missing orders compare equal under \<^verbatim>\<open>===\<close>.
\<close>

definition lowerTaker :: "'a RfqmV2QuoteEntity_scheme \<Rightarrow> string option" where
  "lowerTaker x = map_option (\<lambda>stored. toLowerCase (taker stored)) (order x)"

definition lowerTakerToken :: "'a RfqmV2QuoteEntity_scheme \<Rightarrow> string option" where
  "lowerTakerToken x = map_option (\<lambda>stored. toLowerCase (takerToken stored)) (order x)"

definition pendingStatuses :: "RfqmJobStatus list" where
  "pendingStatuses = [PendingEnqueued, PendingProcessing, PendingLastLookAccepted, PendingSubmitted]"

text \<open>
  \<^verbatim>\<open>submitTakerSignedOtcOrderAsync(params)\<close>, lines 744 to 878, in three blocks;
  \<open>now\<close> is \<^verbatim>\<open>new Date().getTime()\<close>. Reading the store does not fail in this
  model. The first block is the end of the function, lines 845 to 877: the job is built
  from the quote, written and enqueued. The expiry of the order is finite there, the
  expiry check having passed.
\<close>

definition queueJobForQuote ::
  "Env \<Rightarrow> World \<Rightarrow> RfqmV2QuoteEntity \<Rightarrow> OtcOrder \<Rightarrow> Signature \<Rightarrow> World \<times> (ApiError + string)" where
  "queueJobForQuote env w quote otcOrder takerSig =
     (let rfqmJobOpts =
            \<lparr> affiliateAddress = affiliateAddress quote,
              fee = fee quote,
              integratorId =
                (case integratorId quote of
                   None \<Rightarrow> None
                 | Some i \<Rightarrow> if i = [] then None else Some i),
              isUnwrap = isUnwrap quote,
              makerUri = makerUri quote,
              order = order quote,
              orderHash = orderHash quote,
              expiry = (case otc_expiry otcOrder of Num e \<Rightarrow> e | NaN \<Rightarrow> 0),
              lastLookResult = None,
              llRejectPriceDifferenceBps = None,
              makerSignature = None,
              status = PendingEnqueued,
              takerSignature = Some takerSig,
              workerAddress = None \<rparr>
      in case writeV2JobAsync env rfqmJobOpts w of
           (w2, False) \<Rightarrow>
             (w2, Inl (InternalServerError
                ''failed to queue the quote for submission, it may have already been submitted''))
         | (w2, True) \<Rightarrow>
             (case enqueueJobAsync env (orderHash quote) w2 of
                (w3, False) \<Rightarrow>
                  (w3, Inl (InternalServerError
                     ''failed to queue the quote for submission, it may have already been submitted''))
              | (w3, True) \<Rightarrow> (w3, Inr (orderHash quote))))"

text \<open>
  Lines 795 to 843: the taker signature is padded and checked against the taker, and
  the balances of maker and taker are checked against the amounts of the order.
\<close>

definition checkSignatureAndBalances ::
  "Env \<Rightarrow> World \<Rightarrow> RfqmV2QuoteEntity \<Rightarrow> OtcOrderSubmitRfqmSignedQuoteParams \<Rightarrow> string
     \<Rightarrow> World \<times> (ApiError + string)" where
  "checkSignatureAndBalances env w quote params h =
     (let otcOrder = p_order params;
          takerAddress = toLowerCase (taker otcOrder);
          paddedSignature = padSignature env (p_signature params);
          takerSig =
            (if sig_r paddedSignature \<noteq> sig_r (p_signature params)
                \<or> sig_s paddedSignature \<noteq> sig_s (p_signature params)
             then paddedSignature else p_signature params);
          signerAddress = toLowerCase (getSignerFromHash env h takerSig)
      in if signerAddress \<noteq> takerAddress
         then (w, Inl (ValidationError ''signature'' ''signature is not valid''))
         else
           (let w1 = w\<lparr>events := events w @ [BalancesRequested]\<rparr>
            in case getTokenBalancesAsync env of
                 Inl errorMessage \<Rightarrow> (w1, Inl (ThrownError errorMessage))
               | Inr (makerBalance, takerBalance) \<Rightarrow>
                   if makerBalance < makerAmount otcOrder \<or> takerBalance < takerAmount otcOrder
                   then (w1, Inl (ValidationError ''n/a'' ''order is not fillable''))
                   else queueJobForQuote env w1 quote otcOrder takerSig))"

text \<open>
  Lines 747 to 793 and the whole function: the quote is looked up by the hash of the
  order, the expiry window is checked, then the pending jobs of the same taker and taker
  token.
\<close>

definition submitTakerSignedOtcOrderAsync ::
  "Env \<Rightarrow> int \<Rightarrow> World \<Rightarrow> OtcOrderSubmitRfqmSignedQuoteParams \<Rightarrow> World \<times> (ApiError + string)" where
  "submitTakerSignedOtcOrderAsync env now w params =
     (let h = getHash env (p_order params)
      in case findV2QuoteByOrderHashAsync (store w) h of
           None \<Rightarrow> (w, Inl (NotFoundError ''quote not found''))
         | Some quote \<Rightarrow>
             if \<not> bn_gt (bn_times (otc_expiry (p_order params)) ONE_SECOND_MS)
                       (of_int now + RFQM_MINIMUM_EXPIRY_DURATION_MS env)
             then (w, Inl (ValidationError ''expiryAndNonce'' ''order will expire too soon''))
             else if list_ex
                       (\<lambda>job. lowerTaker job = lowerTaker quote
                              \<and> lowerTakerToken job = lowerTakerToken quote
                              \<and> orderHash job \<noteq> orderHash quote)
                       (findV2JobsWithStatusesAsync (store w) pendingStatuses)
             then (w, Inl (TooManyRequestsError
                     ''a pending trade for this taker and takertoken already exists''))
             else checkSignatureAndBalances env w quote params h)"

text \<open>Sample collaborators: a maker that signs, a store and a queue that work.\<close>

definition sampleOtcOrder :: OtcOrder where
  "sampleOtcOrder = \<lparr> chainId = ''1'', expiryAndNonce = ''packed'', maker = ''0xMaker'',
     makerAmount = 100, makerToken = ''0xDai'', taker = ''0xTaker'', takerAmount = 300,
     takerToken = ''0xUsdc'', txOrigin = ''0xRegistry'', verifyingContract = ''0xProxy'',
     otc_expiry = Num 2000 \<rparr>"

definition sampleEnv :: Env where
  "sampleEnv = \<lparr> parseExpiry = sampleDecoder,
     storedOtcOrderToOtcOrder =
       (\<lambda>x. case x of None \<Rightarrow> Inl ''TypeError'' | Some stored \<Rightarrow> Inr sampleOtcOrder),
     getHash = (\<lambda>x. ''0xHash''),
     padSignature = (\<lambda>x. x),
     getSignerFromHash = (\<lambda>h x. if x = sampleSignature then ''0xTAKER'' else ''0xMAKER''),
     parseIntToPrecision1 = (\<lambda>x. \<lfloor>x\<rfloor>),
     DECIMAL_PLACES = 78,
     RFQM_MINIMUM_EXPIRY_DURATION_MS = 60000,
     getTokenBalancesAsync = Inr (1000, 1000),
     signV2Async = (\<lambda>k. Inr (Some (sampleSignature\<lparr>sig_v := 28\<rparr>))),
     getPriceV2Async = Inr (Some \<lparr> price_makerAmount = 99, price_takerAmount = 300 \<rparr>),
     isValidOrderSignerAsync = (\<lambda>a b. Inr True),
     estimateGas = (\<lambda>k. Inr 100000),
     storeFails = (\<lambda>k. False),
     enqueueFails = False \<rparr>"

definition sampleQuote :: RfqmV2QuoteEntity where
  "sampleQuote = \<lparr> affiliateAddress = None, fee = Some sampleFee,
     integratorId = Some ''integrator'', isUnwrap = False, makerUri = Some ''https://mm'',
     order = Some sampleOrder, orderHash = ''0xHash'' \<rparr>"

definition sampleParams :: OtcOrderSubmitRfqmSignedQuoteParams where
  "sampleParams = \<lparr> p_order = sampleOtcOrder, p_signature = sampleSignature \<rparr>"

text \<open>
  A pending job of the same taker (written in another case) and the same taker token,
  for another order hash.
\<close>

definition otherPendingJob :: RfqmV2JobEntity where
  "otherPendingJob = sampleJob\<lparr> orderHash := ''0xOther'', status := PendingSubmitted,
     order := Some (sampleOrder\<lparr>taker := ''0xTAKER''\<rparr>) \<rparr>"

definition worldWith :: "RfqmV2JobEntity list \<Rightarrow> World" where
  "worldWith rows = \<lparr> store = \<lparr> quotes = [sampleQuote], jobs = rows, submissions = [] \<rparr>,
     queue = [], events = [] \<rparr>"

section \<open>Preparation of a job\<close>

text \<open>
  Modelled from the spec: the ABI encoder of the contract wrapper and
  \<^verbatim>\<open>serviceUtils.attributeCallData\<close>, which
  \<^verbatim>\<open>generateTakerSignedOtcOrderCallData\<close> (rfq_blockchain_utils.ts, lines 241 to
  256) calls, are outside the sources. Section 4.4 of the specification says that the
  call data is built deterministically from the fully signed order; the call data is
  the term of its inputs here.
\<close>

datatype ExchangeProxyCall =
    FillTakerSignedOtcOrderForEth OtcOrder Signature Signature
  | FillTakerSignedOtcOrder OtcOrder Signature Signature

record CallData =
  encodedCall :: ExchangeProxyCall
  affiliate :: "string option"

definition generateTakerSignedOtcOrderCallData ::
  "OtcOrder \<Rightarrow> Signature \<Rightarrow> Signature \<Rightarrow> bool \<Rightarrow> string option \<Rightarrow> CallData" where
  "generateTakerSignedOtcOrderCallData otcOrder makerSig takerSig unwrap affiliateAddr =
     \<lparr> encodedCall =
         (if unwrap then FillTakerSignedOtcOrderForEth otcOrder makerSig takerSig
          else FillTakerSignedOtcOrder otcOrder makerSig takerSig),
       affiliate = affiliateAddr \<rparr>"

text \<open>
  \<^verbatim>\<open>retry(f, { maxAttempts })\<close> of the library \<^verbatim>\<open>@lifeomic/attempt\<close>: the
  attempts are made in turn until one succeeds; when none is left the last error is
  thrown. The first argument is the number of attempts that remain after the current
  one, so \<^verbatim>\<open>maxAttempts: 3\<close> is \<open>retry 2 f 0\<close>. The result carries the number of
  attempts made. The delays between attempts are not modelled.
\<close>

fun retry :: "nat \<Rightarrow> (nat \<Rightarrow> string + 'a) \<Rightarrow> nat \<Rightarrow> nat \<times> (string + 'a)" where
  "retry 0 f attemptNum = (Suc attemptNum, f attemptNum)"
| "retry (Suc attemptsRemaining) f attemptNum =
     (case f attemptNum of
        Inr v \<Rightarrow> (Suc attemptNum, Inr v)
      | Inl e \<Rightarrow> retry attemptsRemaining f (Suc attemptNum))"

definition storeError :: string where
  "storeError = ''job store failure''"

definition typeError :: string where
  "typeError = ''TypeError''"

text \<open>
  The pattern \<^verbatim>\<open>_job.status = s; await updateRfqmJobAsync(_job); throw new Error(m)\<close>
  that ends every failing branch of the preparation.
\<close>

definition failWith ::
  "Env \<Rightarrow> RfqmV2JobEntity \<Rightarrow> RfqmJobStatus \<Rightarrow> string \<Rightarrow> World \<Rightarrow> World \<times> (string + 'a)" where
  "failWith env job' s m w =
     (case updateRfqmJobAsync env (job'\<lparr>status := s\<rparr>) w of
        (w1, False) \<Rightarrow> (w1, Inl storeError)
      | (w1, True) \<Rightarrow> (w1, Inl m))"

text \<open>
  Lines 1126 to 1135 and 1150: the difference in basis points between the price first
  quoted and the price quoted after the decline. Both prices are taken over the taker
  amount of the price check, as in the source. A division by zero gives a value that is
  not finite and stays so; \<^verbatim>\<open>parseInt\<close> then gives NaN.
\<close>

definition priceDifferenceBips :: "Env \<Rightarrow> rat \<Rightarrow> PriceResponse \<Rightarrow> JsInteger" where
  "priceDifferenceBips env originalMakerAmount priceResponse =
     (case bn_div (DECIMAL_PLACES env) originalMakerAmount (price_takerAmount priceResponse) of
        None \<Rightarrow> NotANumber
      | Some originalPrice \<Rightarrow>
          (case bn_div (DECIMAL_PLACES env) (price_makerAmount priceResponse)
                  (price_takerAmount priceResponse) of
             None \<Rightarrow> NotANumber
           | Some priceAfterReject \<Rightarrow>
               (case bn_div (DECIMAL_PLACES env) (originalPrice - priceAfterReject) originalPrice of
                  None \<Rightarrow> NotANumber
                | Some ratio \<Rightarrow> IntValue (parseIntToPrecision1 env (\<bar>ratio\<bar> * 10000)))))"

text \<open>
  Lines 1090 to 1160, the price check after a decline: the outer
  \<^verbatim>\<open>try { ... } catch\<close> logs every error of the block, and the inner one every
  error of saving the difference, so the block gives back a world and never an error.
  \<open>job'\<close> is the working copy \<^verbatim>\<open>_job\<close> of the source.
\<close>

definition declineToSignPriceCheck ::
  "Env \<Rightarrow> RfqmV2JobEntity \<Rightarrow> OtcOrder \<Rightarrow> World \<Rightarrow> World" where
  "declineToSignPriceCheck env job' otcOrder w =
     (let w1 = w\<lparr>events := events w @ [PriceRequested]\<rparr>
      in case getPriceV2Async env of
           Inl errorMessage \<Rightarrow> w1
         | Inr None \<Rightarrow> w1
         | Inr (Some priceResponse) \<Rightarrow>
             fst (updateRfqmJobAsync env
                    (job'\<lparr>llRejectPriceDifferenceBps :=
                        Some (priceDifferenceBips env (makerAmount otcOrder) priceResponse)\<rparr>) w1))"

text \<open>Lines 1080 to 1162: the maker has answered without a signature.\<close>

definition declineToSign ::
  "Env \<Rightarrow> RfqmV2JobEntity \<Rightarrow> OtcOrder \<Rightarrow> World
     \<Rightarrow> World \<times> (string + RfqmV2JobEntity \<times> Signature)" where
  "declineToSign env job' otcOrder w =
     (let declined = job'\<lparr>lastLookResult := Some False, status := FailedLastLookDeclined\<rparr>
      in case updateRfqmJobAsync env declined w of
           (w1, False) \<Rightarrow> (w1, Inl storeError)
         | (w1, True) \<Rightarrow>
             (declineToSignPriceCheck env declined otcOrder w1, Inl ''Market Maker declined to sign''))"

text \<open>
  Lines 1016 to 1179, the branch taken when the job has no maker signature: balances,
  the sign request with its retries, then the decline or the acceptance. The result is
  the working copy of the job and the local variable \<^verbatim>\<open>makerSignature\<close>.
\<close>

definition requestMakerSignature ::
  "Env \<Rightarrow> RfqmV2JobEntity \<Rightarrow> OtcOrder \<Rightarrow> World
     \<Rightarrow> World \<times> (string + RfqmV2JobEntity \<times> Signature)" where
  "requestMakerSignature env job' otcOrder w =
     (let w1 = w\<lparr>events := events w @ [BalancesRequested]\<rparr>
      in case getTokenBalancesAsync env of
           Inl errorMessage \<Rightarrow> (w1, Inl errorMessage)
         | Inr (makerBalance, takerBalance) \<Rightarrow>
             if makerBalance < makerAmount otcOrder \<or> takerBalance < takerAmount otcOrder
             then failWith env job' FailedPresignValidationFailed
                    ''Order failed pre-sign validation'' w1
             else
               (case retry 2 (signV2Async env) 0 of
                  (attempts, answer) \<Rightarrow>
                    (let w2 = w1\<lparr>events := events w1 @ replicate attempts SignRequested\<rparr>
                     in case answer of
                          Inl errorMessage \<Rightarrow>
                            failWith env job' FailedSignFailed
                              ''Job failed during market maker sign attempt'' w2
                        | Inr None \<Rightarrow> declineToSign env job' otcOrder w2
                        | Inr (Some signed) \<Rightarrow>
                            (let paddedSignature = padSignature env signed;
                                 makerSig =
                                   (if sig_r paddedSignature \<noteq> sig_r signed
                                       \<or> sig_s paddedSignature \<noteq> sig_s signed
                                    then paddedSignature else signed);
                                 accepted = job'\<lparr>makerSignature := Some paddedSignature,
                                                 lastLookResult := Some True,
                                                 status := PendingLastLookAccepted\<rparr>
                             in case updateRfqmJobAsync env accepted w2 of
                                  (w3, False) \<Rightarrow> (w3, Inl storeError)
                                | (w3, True) \<Rightarrow> (w3, Inr (accepted, makerSig))))))"

text \<open>
  Lines 1186 to 1197: the signer of the maker signature is the maker, or a signer that
  the maker has registered. Reading the maker of a missing order is a TypeError.
\<close>

definition verifySigner ::
  "Env \<Rightarrow> RfqmV2JobEntity \<Rightarrow> Signature \<Rightarrow> World \<Rightarrow> World \<times> (string + unit)" where
  "verifySigner env job' makerSig w =
     (case order job' of
        None \<Rightarrow> (w, Inl typeError)
      | Some stored \<Rightarrow>
          (let signerAddress = toLowerCase (getSignerFromHash env (orderHash job') makerSig);
               makerAddress = toLowerCase (maker stored)
           in if signerAddress \<noteq> makerAddress
              then
                (let w1 = w\<lparr>events := events w @ [SignerChecked]\<rparr>
                 in case isValidOrderSignerAsync env makerAddress signerAddress of
                      Inl errorMessage \<Rightarrow> (w1, Inl errorMessage)
                    | Inr isValidSigner \<Rightarrow>
                        if \<not> isValidSigner
                        then failWith env job' FailedSignFailed ''Invalid order signer address'' w1
                        else (w1, Inr ()))
              else (w, Inr ())))"

text \<open>
  Lines 1208 to 1273: the simulation of the transaction, tried three times. After a
  failure the balances are read for the log, inside a \<^verbatim>\<open>try\<close> of their own.
\<close>

definition ethCallValidation ::
  "Env \<Rightarrow> RfqmV2JobEntity \<Rightarrow> World \<Rightarrow> World \<times> (string + unit)" where
  "ethCallValidation env job' w =
     (case retry 2 (estimateGas env) 0 of
        (attempts, answer) \<Rightarrow>
          (let w1 = w\<lparr>events := events w @ replicate attempts GasEstimated\<rparr>
           in case answer of
                Inr gas \<Rightarrow> (w1, Inr ())
              | Inl errorMessage \<Rightarrow>
                  (case updateRfqmJobAsync env (job'\<lparr>status := FailedEthCallFailed\<rparr>) w1 of
                     (w2, False) \<Rightarrow> (w2, Inl storeError)
                   | (w2, True) \<Rightarrow>
                       (w2\<lparr>events := events w2 @ [BalancesRequested]\<rparr>,
                        Inl ''Eth call validation failed''))))"

text \<open>Lines 1007 to 1010.\<close>

definition markProcessing ::
  "Env \<Rightarrow> RfqmV2JobEntity \<Rightarrow> World \<Rightarrow> World \<times> (string + RfqmV2JobEntity)" where
  "markProcessing env job' w =
     (if status job' = PendingEnqueued
      then (case updateRfqmJobAsync env (job'\<lparr>status := PendingProcessing\<rparr>) w of
              (w1, False) \<Rightarrow> (w1, Inl storeError)
            | (w1, True) \<Rightarrow> (w1, Inr (job'\<lparr>status := PendingProcessing\<rparr>)))
      else (w, Inr job'))"

text \<open>
  Lines 1001 to 1275, the preparation of a job that has no submission and has passed
  the validation.
\<close>

definition prepareValidJob ::
  "Env \<Rightarrow> World \<Rightarrow> RfqmV2JobEntity \<Rightarrow> OtcOrder \<Rightarrow> World \<times> (string + CallData \<times> RfqmV2JobEntity)" where
  "prepareValidJob env w job' otcOrder =
     (case takerSignature job' of
        None \<Rightarrow> (w, Inl ''No taker signature present'')
      | Some takerSig \<Rightarrow>
          (case markProcessing env job' w of
             (w1, Inl errorMessage) \<Rightarrow> (w1, Inl errorMessage)
           | (w1, Inr processing) \<Rightarrow>
               (case (case makerSignature processing of
                        Some makerSig \<Rightarrow> (w1, Inr (processing, makerSig))
                      | None \<Rightarrow> requestMakerSignature env processing otcOrder w1) of
                  (w2, Inl errorMessage) \<Rightarrow> (w2, Inl errorMessage)
                | (w2, Inr (signedJob, makerSig)) \<Rightarrow>
                    (case verifySigner env signedJob makerSig w2 of
                       (w3, Inl errorMessage) \<Rightarrow> (w3, Inl errorMessage)
                     | (w3, Inr u) \<Rightarrow>
                         (case makerSignature signedJob of
                            None \<Rightarrow> (w3, Inl typeError)
                          | Some jobMakerSig \<Rightarrow>
                              (let calldata = generateTakerSignedOtcOrderCallData otcOrder
                                     jobMakerSig takerSig (isUnwrap signedJob)
                                     (affiliateAddress signedJob)
                               in case ethCallValidation env signedJob w3 of
                                    (w4, Inl errorMessage) \<Rightarrow> (w4, Inl errorMessage)
                                  | (w4, Inr u') \<Rightarrow> (w4, Inr (calldata, signedJob))))))))"

text \<open>
  \<^verbatim>\<open>prepareV2JobAsync(job, workerAddress, now)\<close>, lines 956 to 1276. The worker
  address only reaches the log and the simulation and is left out. An error is the
  message of the exception thrown; the result is the call data and the working copy of
  the job.
\<close>

definition prepareV2JobAsync ::
  "Env \<Rightarrow> int \<Rightarrow> World \<Rightarrow> RfqmV2JobEntity \<Rightarrow> World \<times> (string + CallData \<times> RfqmV2JobEntity)" where
  "prepareV2JobAsync env now w job =
     (case storedOtcOrderToOtcOrder env (order job) of
        Inl errorMessage \<Rightarrow> (w, Inl errorMessage)
      | Inr otcOrder \<Rightarrow>
          if findV2TransactionSubmissionsByOrderHashAsync (store w) (orderHash job) \<noteq> []
          then
            (case makerSignature job of
               None \<Rightarrow> (w, Inl ''Encountered a job with submissions but no maker signature'')
             | Some makerSig \<Rightarrow>
                 (case takerSignature job of
                    None \<Rightarrow> (w, Inl ''Encountered a job with submissions but no taker signature'')
                  | Some takerSig \<Rightarrow>
                      (w, Inr (generateTakerSignedOtcOrderCallData otcOrder makerSig takerSig
                                 (isUnwrap job) (affiliateAddress job), job))))
          else
            (case validateJob (parseExpiry env) job now of
               Inl errorMessage \<Rightarrow> (w, Inl errorMessage)
             | Inr (Some errorStatus) \<Rightarrow>
                 failWith env job errorStatus ''Job failed validation'' w
             | Inr None \<Rightarrow> prepareValidJob env w job otcOrder))"

text \<open>
  The events of the second world are those of the first followed by events that are not
  requests for a maker signature.
\<close>

definition noSignRequest :: "World \<Rightarrow> World \<Rightarrow> bool" where
  "noSignRequest w w' = (\<exists>new. events w' = events w @ new \<and> SignRequested \<notin> set new)"

text \<open>Collaborators whose maker declines, with a price check that fails in two ways.\<close>

definition decliningEnv :: Env where
  "decliningEnv = sampleEnv\<lparr> signV2Async := (\<lambda>k. if k = 0 then Inl ''timeout'' else Inr None),
     getPriceV2Async := Inl ''connection refused'' \<rparr>"

definition unsavedEnv :: Env where
  "unsavedEnv = sampleEnv\<lparr> signV2Async := (\<lambda>k. Inr None), storeFails := (\<lambda>k. 4 \<le> k) \<rparr>"

text \<open>A store that holds one submission for the sample job.\<close>

definition submittedWorld :: World where
  "submittedWorld = \<lparr> store = \<lparr> quotes = [sampleQuote], jobs = [sampleJob],
       submissions = [sampleSubmission\<lparr>tx_status := TxSubmitted\<rparr>] \<rparr>,
     queue = [], events = [] \<rparr>"

section \<open>Theorems on job validation\<close>

text \<open>
  C4 (as stated): validateJob reports the missing taker signature before the expiry.
  The source checks the expiry first: a job that is complete except for its taker
  signature and whose order expired at 2000 s, validated at 2000001 ms, gets
  FailedExpired, where the stated order requires FailedValidationNoTakerSignature.
\<close>

theorem validateJob_order_counterexample:
  "validateJob sampleDecoder (sampleJob\<lparr>takerSignature := None\<rparr>) 2000001 = Inr (Some FailedExpired)
   \<and> validateJob sampleDecoder (sampleJob\<lparr>takerSignature := None\<rparr>) 2000001
       \<noteq> Inr (Some FailedValidationNoTakerSignature)"
  by (simp add: validateJob_def sampleJob_def sampleOrder_def sampleDecoder_def ONE_SECOND_MS_def)

text \<open>
  C4 (amended): validateJob is a function of the job and the time alone and returns the
  first violated precondition in the order of the source: missing maker endpoint,
  missing order, missing fee, decoded expiry NaN or at most \<open>now\<close>, missing taker
  signature (where the decoder throws, after the first three checks, so does
  validateJob); it returns null exactly when the maker endpoint, the order, the fee and
  the taker signature are present and the expiry decodes to a time after \<open>now\<close>. A
  job whose maker endpoint, order and fee are present and whose decoded expiry is at
  most \<open>now\<close> gets FailedExpired, whatever its taker signature.
\<close>

theorem validateJob_first_violation:
  "validateJob decodeExpiry job now =
     (if makerUri job = None then Inr (Some FailedValidationNoMakerUri)
      else if order job = None then Inr (Some FailedValidationNoOrder)
      else if fee job = None then Inr (Some FailedValidationNoFee)
      else case decodeExpiry (expiryAndNonce (the (order job))) of
             Inl errorMessage \<Rightarrow> Inl errorMessage
           | Inr decoded \<Rightarrow>
               if bn_isNaN decoded \<or> bn_lte (bn_times decoded 1000) (of_int now)
               then Inr (Some FailedExpired)
               else if takerSignature job = None then Inr (Some FailedValidationNoTakerSignature)
               else Inr None)
   \<and> (validateJob decodeExpiry job now = Inr None \<longleftrightarrow>
        makerUri job \<noteq> None \<and> order job \<noteq> None \<and> fee job \<noteq> None
        \<and> (\<exists>e. decodeExpiry (expiryAndNonce (the (order job))) = Inr (Num e) \<and> of_int now < e * 1000)
        \<and> takerSignature job \<noteq> None)
   \<and> (makerUri job \<noteq> None \<and> order job \<noteq> None \<and> fee job \<noteq> None
        \<and> (\<exists>e. decodeExpiry (expiryAndNonce (the (order job))) = Inr (Num e) \<and> e * 1000 \<le> of_int now)
        \<longrightarrow> validateJob decodeExpiry job now = Inr (Some FailedExpired))"
proof (cases "order job")
  case None
  then show ?thesis
    by (simp add: validateJob_def)
next
  case (Some stored)
  show ?thesis
  proof (cases "decodeExpiry (expiryAndNonce stored)")
    case (Inl errorMessage)
    with Some show ?thesis
      by (simp add: validateJob_def)
  next
    case (Inr decoded)
    with Some show ?thesis
      by (cases decoded) (auto simp: validateJob_def ONE_SECOND_MS_def Let_def not_le)
  qed
qed

theorem validateJob_first_violation_witness:
  "validateJob sampleDecoder sampleJob 1999999 = Inr None
   \<and> validateJob sampleDecoder sampleJob 2000000 = Inr (Some FailedExpired)"
proof -
  have m: "makerUri sampleJob \<noteq> None" "order sampleJob \<noteq> None" "fee sampleJob \<noteq> None"
    "takerSignature sampleJob \<noteq> None"
    by (simp_all add: sampleJob_def)
  have e1: "\<exists>e. sampleDecoder (expiryAndNonce (the (order sampleJob))) = Inr (Num e) \<and> of_int 1999999 < e * 1000"
    by (simp add: sampleDecoder_def sampleJob_def sampleOrder_def)
  have e2: "\<exists>e. sampleDecoder (expiryAndNonce (the (order sampleJob))) = Inr (Num e) \<and> e * 1000 \<le> of_int 2000000"
    by (simp add: sampleDecoder_def sampleJob_def sampleOrder_def)
  from validateJob_first_violation [of sampleDecoder sampleJob 1999999] m e1
  have "validateJob sampleDecoder sampleJob 1999999 = Inr None"
    by blast
  moreover from validateJob_first_violation [of sampleDecoder sampleJob 2000000] m e2
  have "validateJob sampleDecoder sampleJob 2000000 = Inr (Some FailedExpired)"
    by blast
  ultimately show ?thesis by simp
qed

text \<open>
  C10: a job whose packed expiry does not parse as a number gets FailedExpired from
  validateJob, without a throw. The source calls the decoder on line 219, before the
  test for NaN on line 221, and the decoder throws on such a field: for a job with
  maker endpoint, order, fee and taker signature whose packed expiry is not a number,
  validateJob throws the error of the decoder and returns no status.
\<close>

theorem validateJob_unparsable_throws:
  "makerUri unparsableJob \<noteq> None \<and> fee unparsableJob \<noteq> None
   \<and> takerSignature unparsableJob \<noteq> None
   \<and> map_option expiryAndNonce (order unparsableJob) = Some ''not a number''
   \<and> validateJob sampleDecoder unparsableJob 0 = Inl invalidHex
   \<and> validateJob sampleDecoder unparsableJob 0 \<noteq> Inr (Some FailedExpired)"
  by (simp add: validateJob_def unparsableJob_def sampleJob_def sampleDecoder_def)

section \<open>Theorems on the order status\<close>

text \<open>
  C1 (as stated): a succeeded job with exactly one successful submission gets exactly
  one transaction. The source also requires that submission to carry a transaction
  hash: with one successful submission whose hash is null, getOrderStatusAsync throws.
\<close>

theorem getOrderStatusAsync_no_hash_counterexample:
  "length (filter isSuccessfulSubmission
     (findV2TransactionSubmissionsByOrderHashAsync
        (sampleDb [sampleSubmission\<lparr>transactionHash := None\<rparr>]) ''0xHash'')) = 1
   \<and> getOrderStatusAsync (sampleDb [sampleSubmission\<lparr>transactionHash := None\<rparr>]) 0 ''0xHash''
       = Inl SuccessfulWithoutHash"
  by (simp add: getOrderStatusAsync_def findV2JobByOrderHashAsync_def
      findV2TransactionSubmissionsByOrderHashAsync_def sampleDb_def sampleJob_def
      sampleSubmission_def isSuccessfulSubmission_def transformSubmission_def)

text \<open>
  C1 (amended): for every job whose status is SucceededConfirmed or
  SucceededUnconfirmed, getOrderStatusAsync returns exactly one transaction, the
  successful one, when exactly one of the job's submissions has a Succeeded status and
  that submission has a non-empty transaction hash; it throws when the number of
  successful submissions is not one, and also when the single successful submission
  has no hash.
\<close>

theorem getOrderStatusAsync_succeeded:
  assumes "findV2JobByOrderHashAsync db h = Some job"
    and "status job = SucceededConfirmed \<or> status job = SucceededUnconfirmed"
  shows "(\<forall>t x. filter isSuccessfulSubmission (findV2TransactionSubmissionsByOrderHashAsync db h) = [t]
            \<and> transactionHash t = Some x \<and> x \<noteq> [] \<longrightarrow>
          (\<exists>r. getOrderStatusAsync db now h = Inr (Some r)
             \<and> transactions r = [\<lparr> hash = x, timestamp = createdAt t \<rparr>]))
       \<and> (\<forall>t. filter isSuccessfulSubmission (findV2TransactionSubmissionsByOrderHashAsync db h) = [t]
            \<and> (transactionHash t = None \<or> transactionHash t = Some []) \<longrightarrow>
          getOrderStatusAsync db now h = Inl SuccessfulWithoutHash)
       \<and> (length (filter isSuccessfulSubmission (findV2TransactionSubmissionsByOrderHashAsync db h)) \<noteq> 1 \<longrightarrow>
          getOrderStatusAsync db now h =
            Inl (ExpectedExactlyOneSuccessful h
              (length (filter isSuccessfulSubmission (findV2TransactionSubmissionsByOrderHashAsync db h)))))"
  using assms
  by (auto simp: getOrderStatusAsync_def transformSubmission_def Let_def)

theorem getOrderStatusAsync_succeeded_witness:
  "(\<exists>r. getOrderStatusAsync (sampleDb [sampleSubmission]) 0 ''0xHash'' = Inr (Some r)
      \<and> transactions r = [\<lparr> hash = ''0xTx1'', timestamp = 1500000 \<rparr>])
   \<and> getOrderStatusAsync (sampleDb []) 0 ''0xHash'' = Inl (ExpectedExactlyOneSuccessful ''0xHash'' 0)
   \<and> getOrderStatusAsync (sampleDb [sampleSubmission, sampleSubmission\<lparr>transactionHash := Some ''0xTx2''\<rparr>]) 0 ''0xHash''
       = Inl (ExpectedExactlyOneSuccessful ''0xHash'' 2)"
proof -
  have j: "findV2JobByOrderHashAsync (sampleDb txs) ''0xHash'' = Some (sampleJob\<lparr>status := SucceededConfirmed\<rparr>)" for txs
    by (simp add: findV2JobByOrderHashAsync_def sampleDb_def sampleJob_def)
  have s: "status (sampleJob\<lparr>status := SucceededConfirmed\<rparr>) = SucceededConfirmed
           \<or> status (sampleJob\<lparr>status := SucceededConfirmed\<rparr>) = SucceededUnconfirmed"
    by simp
  have f1: "filter isSuccessfulSubmission
      (findV2TransactionSubmissionsByOrderHashAsync (sampleDb [sampleSubmission]) ''0xHash'') = [sampleSubmission]"
    by (simp add: findV2TransactionSubmissionsByOrderHashAsync_def sampleDb_def sampleSubmission_def
        isSuccessfulSubmission_def)
  have f0: "length (filter isSuccessfulSubmission
      (findV2TransactionSubmissionsByOrderHashAsync (sampleDb []) ''0xHash'')) = 0"
    by (simp add: findV2TransactionSubmissionsByOrderHashAsync_def sampleDb_def)
  have f2: "length (filter isSuccessfulSubmission
      (findV2TransactionSubmissionsByOrderHashAsync
        (sampleDb [sampleSubmission, sampleSubmission\<lparr>transactionHash := Some ''0xTx2''\<rparr>]) ''0xHash'')) = 2"
    by (simp add: findV2TransactionSubmissionsByOrderHashAsync_def sampleDb_def sampleSubmission_def
        isSuccessfulSubmission_def)
  have h1: "transactionHash sampleSubmission = Some ''0xTx1''" "createdAt sampleSubmission = 1500000"
    by (simp_all add: sampleSubmission_def)
  note a = getOrderStatusAsync_succeeded [OF j s, of "[sampleSubmission]" 0]
  note b = getOrderStatusAsync_succeeded [OF j s, of "[]" 0]
  note c = getOrderStatusAsync_succeeded [OF j s,
      of "[sampleSubmission, sampleSubmission\<lparr>transactionHash := Some ''0xTx2''\<rparr>]" 0]
  have "\<exists>r. getOrderStatusAsync (sampleDb [sampleSubmission]) 0 ''0xHash'' = Inr (Some r)
      \<and> transactions r = [\<lparr> hash = ''0xTx1'', timestamp = 1500000 \<rparr>]"
    using a f1 h1 by auto
  moreover have "getOrderStatusAsync (sampleDb []) 0 ''0xHash'' = Inl (ExpectedExactlyOneSuccessful ''0xHash'' 0)"
    using b f0 by simp
  moreover have "getOrderStatusAsync (sampleDb [sampleSubmission, sampleSubmission\<lparr>transactionHash := Some ''0xTx2''\<rparr>]) 0 ''0xHash''
       = Inl (ExpectedExactlyOneSuccessful ''0xHash'' 2)"
    using c f2 by simp
  ultimately show ?thesis by blast
qed

section \<open>Theorems on the watch loop\<close>



text \<open>
  C3: escalation stops exactly when the max priority fee per gas of the most recent
  submission has reached MAX_PRIORITY_FEE_PER_GAS_CAP. The source compares the max fee
  per gas with the cap: with the most recent fees at 130 gwei max fee and 2 gwei
  priority fee, an order that has not expired and a gas price estimate of 30 gwei, the
  pass submits nothing although the priority fee is below the 128 gwei ceiling.
\<close>

theorem escalation_ceiling_compares_max_fee:
  "maxPriorityFeePerGas (maxGasFees richContext) = 2000000000
   \<and> maxPriorityFeePerGas (maxGasFees richContext) < MAX_PRIORITY_FEE_PER_GAS_CAP
   \<and> maxFeePerGas (maxGasFees richContext) = 130000000000
   \<and> pendingSubmittedCase 2000 1000000 (Inr 30000000000) richContext = KeepWatching"
  by (simp add: pendingSubmittedCase_def richContext_def newSubmissionContext_def feesOf_def
      sampleSubmission_def ONE_SECOND_MS_def ONE_MINUTE_S_def MAX_PRIORITY_FEE_PER_GAS_CAP_def)

text \<open>
  C5: in the watch loop, whenever no receipt is found: if the current time exceeds the
  order's expiry by more than 120 seconds the loop returns FailedExpired; if it exceeds
  the expiry by a positive amount of at most 120 seconds the loop goes on watching with
  the same submissions, without submitting a transaction; and a pass escalates and
  resubmits only when the expiry has not yet passed.
\<close>

theorem watch_expiry_window:
  "(minedReceipt ob = None \<and> of_int (obs_now ob) / 1000 - expiry job > 120 \<longrightarrow>
      watchLoop job worker proxy n ctx (ob # obs) = (ctx, Some (Inr FailedExpired)))
   \<and> (minedReceipt ob = None \<and> of_int (obs_now ob) / 1000 - expiry job > 0
        \<and> of_int (obs_now ob) / 1000 - expiry job \<le> 120 \<longrightarrow>
      pendingSubmittedCase (expiry job) (obs_now ob) (obs_gasPrice ob) ctx = KeepWatching
      \<and> watchLoop job worker proxy n ctx (ob # obs) = watchLoop job worker proxy n ctx obs)
   \<and> (pendingSubmittedCase (expiry job) (obs_now ob) (obs_gasPrice ob) ctx = Resubmit gasFees \<longrightarrow>
      of_int (obs_now ob) / 1000 \<le> expiry job)"
  by (auto simp: pendingSubmittedCase_def checkSubmissionMapReceiptsAndUpdateDbAsync_def Let_def
      ONE_SECOND_MS_def ONE_MINUTE_S_def split: if_splits sum.splits)

theorem watch_expiry_window_witness:
  "watchLoop sampleJob ''0xWorker'' ''0xProxy'' 7 sampleContext
      [sampleObservation\<lparr>obs_now := 2120001\<rparr>] = (sampleContext, Some (Inr FailedExpired))
   \<and> watchLoop sampleJob ''0xWorker'' ''0xProxy'' 7 sampleContext
      [sampleObservation\<lparr>obs_now := 2120000\<rparr>] = (sampleContext, None)
   \<and> pendingSubmittedCase (expiry sampleJob) 2000000 (Inr 30000000000) sampleContext
      = Resubmit \<lparr> maxFeePerGas = 63000000000, maxPriorityFeePerGas = 3000000000 \<rparr>"
proof -
  have e: "expiry sampleJob = 2000"
    by (simp add: sampleJob_def)
  have r: "pendingSubmittedCase (expiry sampleJob) (obs_now (sampleObservation\<lparr>obs_now := 2000000\<rparr>))
      (obs_gasPrice (sampleObservation\<lparr>obs_now := 2000000\<rparr>)) sampleContext
      = Resubmit \<lparr> maxFeePerGas = 63000000000, maxPriorityFeePerGas = 3000000000 \<rparr>"
    by (simp add: e pendingSubmittedCase_def sampleContext_def newSubmissionContext_def feesOf_def
        sampleSubmission_def sampleObservation_def ONE_SECOND_MS_def ONE_MINUTE_S_def
        MAX_PRIORITY_FEE_PER_GAS_CAP_def MAX_PRIORITY_FEE_PER_GAS_MULTIPLIER_def
        MAX_FEE_PER_GAS_MULTIPLIER_def)
  note w1 = watch_expiry_window [of "sampleObservation\<lparr>obs_now := 2120001\<rparr>" sampleJob
      "''0xWorker''" "''0xProxy''" 7 sampleContext "[]"]
  note w2 = watch_expiry_window [of "sampleObservation\<lparr>obs_now := 2120000\<rparr>" sampleJob
      "''0xWorker''" "''0xProxy''" 7 sampleContext "[]"]
  note w3 = watch_expiry_window [of "sampleObservation\<lparr>obs_now := 2000000\<rparr>" sampleJob
      "''0xWorker''" "''0xProxy''" 7 sampleContext "[]"
      "\<lparr> maxFeePerGas = 63000000000, maxPriorityFeePerGas = 3000000000 \<rparr>"]
  have "watchLoop sampleJob ''0xWorker'' ''0xProxy'' 7 sampleContext
      [sampleObservation\<lparr>obs_now := 2120001\<rparr>] = (sampleContext, Some (Inr FailedExpired))"
    using w1 by (simp add: e sampleObservation_def)
  moreover have "watchLoop sampleJob ''0xWorker'' ''0xProxy'' 7 sampleContext
      [sampleObservation\<lparr>obs_now := 2120000\<rparr>] = (sampleContext, None)"
    using w2 by (simp add: e sampleObservation_def)
  moreover have "of_int (obs_now (sampleObservation\<lparr>obs_now := 2000000\<rparr>)) / 1000 \<le> expiry sampleJob"
    using w3 r by blast
  ultimately show ?thesis using r by (simp add: sampleObservation_def)
qed

section \<open>Theorems on the price of a quote\<close>

text \<open>
  C8: the returned price is the raw unit price cut to 6 decimal places
  (PRICE_DECIMAL_PLACES). The source cuts to PRICE_DECIMAL_PLACES + 1 places: selling
  3 units of an 18-decimal token for 1 unit of another, with 78 places of division
  precision, the price returned is 0.3333333, where one third cut to 6 places is
  0.333333.
\<close>

theorem roundedPrice_seven_places:
  "roundedPrice 78 True (10 ^ 18) (3 * 10 ^ 18) 18 18 = Some (3333333 / 10000000)
   \<and> decimalPlacesRoundDown PRICE_DECIMAL_PLACES (1 / 3) = 333333 / 1000000
   \<and> roundedPrice 78 True (10 ^ 18) (3 * 10 ^ 18) 18 18
       \<noteq> Some (decimalPlacesRoundDown PRICE_DECIMAL_PLACES (1 / 3))"
  by code_simp

section \<open>Theorems on the submission of a taker-signed order\<close>

lemma queueJobForQuote_not_too_many:
  "snd (queueJobForQuote env w quote otcOrder takerSig) \<noteq> Inl (TooManyRequestsError msg)"
  by (simp add: queueJobForQuote_def Let_def split: prod.splits bool.splits)

lemma checkSignatureAndBalances_not_too_many:
  "snd (checkSignatureAndBalances env w quote params h) \<noteq> Inl (TooManyRequestsError msg)"
  by (simp add: checkSignatureAndBalances_def Let_def queueJobForQuote_not_too_many
      split: sum.splits prod.splits)

text \<open>
  C9 (as stated): TooManyRequestsError is thrown exactly when a pending job of the same
  taker and taker token with another order hash exists. The expiry window is checked
  first: with such a job in the store and an order that expires at 2000 s submitted at
  1990 s (less than the minimum of 60 s before), the function throws a ValidationError.
\<close>

theorem submit_expiry_first_counterexample:
  "jobs (store (worldWith [otherPendingJob])) = [otherPendingJob]
   \<and> status otherPendingJob = PendingSubmitted
   \<and> lowerTaker otherPendingJob = lowerTaker sampleQuote
   \<and> lowerTakerToken otherPendingJob = lowerTakerToken sampleQuote
   \<and> orderHash otherPendingJob \<noteq> orderHash sampleQuote
   \<and> snd (submitTakerSignedOtcOrderAsync sampleEnv 1990000 (worldWith [otherPendingJob]) sampleParams)
       = Inl (ValidationError ''expiryAndNonce'' ''order will expire too soon'')"
  by (simp add: submitTakerSignedOtcOrderAsync_def findV2QuoteByOrderHashAsync_def worldWith_def
      otherPendingJob_def sampleJob_def sampleQuote_def sampleOrder_def sampleParams_def
      sampleOtcOrder_def sampleEnv_def lowerTaker_def lowerTakerToken_def toLowerCase_def
      lowerChar_def char_of_def bit_0 ONE_SECOND_MS_def)

text \<open>
  C9 (amended): submitTakerSignedOtcOrderAsync throws TooManyRequestsError exactly when
  the quote of the submitted order is found, the order expires more than the minimum
  duration after now, and there is a job in a pending status (PendingEnqueued,
  PendingProcessing, PendingLastLookAccepted or PendingSubmitted) with another order hash
  whose lower-cased taker and taker token equal those of the quote, a missing order
  reading as undefined on both sides; a job with the same order hash does not block,
  and when the error is thrown nothing has been written or queued.
\<close>

theorem submit_pending_trade_check:
  "((\<exists>msg. snd (submitTakerSignedOtcOrderAsync env now w params) = Inl (TooManyRequestsError msg))
    \<longleftrightarrow> (\<exists>quote. findV2QuoteByOrderHashAsync (store w) (getHash env (p_order params)) = Some quote
          \<and> bn_gt (bn_times (otc_expiry (p_order params)) ONE_SECOND_MS)
                   (of_int now + RFQM_MINIMUM_EXPIRY_DURATION_MS env)
          \<and> (\<exists>job \<in> set (jobs (store w)).
                status job \<in> {PendingEnqueued, PendingProcessing, PendingLastLookAccepted, PendingSubmitted}
                \<and> lowerTaker job = lowerTaker quote \<and> lowerTakerToken job = lowerTakerToken quote
                \<and> orderHash job \<noteq> orderHash quote)))
   \<and> (\<forall>msg. snd (submitTakerSignedOtcOrderAsync env now w params) = Inl (TooManyRequestsError msg)
          \<longrightarrow> fst (submitTakerSignedOtcOrderAsync env now w params) = w)"
proof (cases "findV2QuoteByOrderHashAsync (store w) (getHash env (p_order params))")
  case None
  then show ?thesis
    by (simp add: submitTakerSignedOtcOrderAsync_def Let_def)
next
  case (Some quote)
  have written: "\<forall>msg. snd (submitTakerSignedOtcOrderAsync env now w params) = Inl (TooManyRequestsError msg)
          \<longrightarrow> fst (submitTakerSignedOtcOrderAsync env now w params) = w"
    using Some
    by (simp add: submitTakerSignedOtcOrderAsync_def Let_def checkSignatureAndBalances_not_too_many)
  have thrown: "(\<exists>msg. snd (submitTakerSignedOtcOrderAsync env now w params) = Inl (TooManyRequestsError msg))
    \<longleftrightarrow> (bn_gt (bn_times (otc_expiry (p_order params)) ONE_SECOND_MS)
                   (of_int now + RFQM_MINIMUM_EXPIRY_DURATION_MS env)
          \<and> (\<exists>job \<in> set (jobs (store w)).
                status job \<in> {PendingEnqueued, PendingProcessing, PendingLastLookAccepted, PendingSubmitted}
                \<and> lowerTaker job = lowerTaker quote \<and> lowerTakerToken job = lowerTakerToken quote
                \<and> orderHash job \<noteq> orderHash quote))"
    using Some
    by (simp add: submitTakerSignedOtcOrderAsync_def Let_def list_ex_iff
        findV2JobsWithStatusesAsync_def pendingStatuses_def checkSignatureAndBalances_not_too_many)
      blast
  show ?thesis
    using written thrown Some by simp
qed

theorem submit_pending_trade_check_witness:
  "(\<exists>msg. snd (submitTakerSignedOtcOrderAsync sampleEnv 1000000 (worldWith [otherPendingJob]) sampleParams)
       = Inl (TooManyRequestsError msg))
   \<and> fst (submitTakerSignedOtcOrderAsync sampleEnv 1000000 (worldWith [otherPendingJob]) sampleParams)
       = worldWith [otherPendingJob]
   \<and> \<not> (\<exists>msg. snd (submitTakerSignedOtcOrderAsync sampleEnv 1000000
            (worldWith [otherPendingJob\<lparr>orderHash := ''0xHash''\<rparr>]) sampleParams)
       = Inl (TooManyRequestsError msg))"
proof -
  note t = submit_pending_trade_check [of sampleEnv 1000000 "worldWith [otherPendingJob]" sampleParams]
  note u = submit_pending_trade_check [of sampleEnv 1000000
      "worldWith [otherPendingJob\<lparr>orderHash := ''0xHash''\<rparr>]" sampleParams]
  have q: "findV2QuoteByOrderHashAsync (store (worldWith rows)) (getHash sampleEnv (p_order sampleParams))
      = Some sampleQuote" for rows
    by (simp add: findV2QuoteByOrderHashAsync_def worldWith_def sampleQuote_def sampleEnv_def)
  have e: "bn_gt (bn_times (otc_expiry (p_order sampleParams)) ONE_SECOND_MS)
      (of_int 1000000 + RFQM_MINIMUM_EXPIRY_DURATION_MS sampleEnv)"
    by (simp add: sampleParams_def sampleOtcOrder_def sampleEnv_def ONE_SECOND_MS_def)
  have j: "otherPendingJob \<in> set (jobs (store (worldWith [otherPendingJob])))
      \<and> status otherPendingJob \<in> {PendingEnqueued, PendingProcessing, PendingLastLookAccepted, PendingSubmitted}
      \<and> lowerTaker otherPendingJob = lowerTaker sampleQuote
      \<and> lowerTakerToken otherPendingJob = lowerTakerToken sampleQuote
      \<and> orderHash otherPendingJob \<noteq> orderHash sampleQuote"
    by (simp add: worldWith_def otherPendingJob_def sampleJob_def sampleQuote_def sampleOrder_def
        lowerTaker_def lowerTakerToken_def toLowerCase_def lowerChar_def char_of_def bit_0)
  have first: "\<exists>msg. snd (submitTakerSignedOtcOrderAsync sampleEnv 1000000 (worldWith [otherPendingJob]) sampleParams)
       = Inl (TooManyRequestsError msg)"
    using t q e j by blast
  then have second: "fst (submitTakerSignedOtcOrderAsync sampleEnv 1000000 (worldWith [otherPendingJob]) sampleParams)
       = worldWith [otherPendingJob]"
    using t by blast
  have k: "jobs (store (worldWith [otherPendingJob\<lparr>orderHash := ''0xHash''\<rparr>]))
      = [otherPendingJob\<lparr>orderHash := ''0xHash''\<rparr>]"
    "orderHash (otherPendingJob\<lparr>orderHash := ''0xHash''\<rparr>) = orderHash sampleQuote"
    by (simp_all add: worldWith_def sampleQuote_def)
  have third: "\<not> (\<exists>msg. snd (submitTakerSignedOtcOrderAsync sampleEnv 1000000
            (worldWith [otherPendingJob\<lparr>orderHash := ''0xHash''\<rparr>]) sampleParams)
       = Inl (TooManyRequestsError msg))"
    using u q k by auto
  show ?thesis
    using first second third by blast
qed

section \<open>Theorems on the preparation of a job\<close>

lemma find_map_replace:
  "orderHash job = h \<Longrightarrow> list_ex (\<lambda>j. orderHash j = h) rows \<Longrightarrow>
   find (\<lambda>j. orderHash j = h) (map (\<lambda>j. if orderHash j = h then job else j) rows) = Some job"
  by (induction rows) auto

lemma find_append_new:
  "orderHash job = h \<Longrightarrow> \<not> list_ex (\<lambda>j. orderHash j = h) rows \<Longrightarrow>
   find (\<lambda>j. orderHash j = h) (rows @ [job]) = Some job"
  by (induction rows) auto

lemma find_overwriteJob:
  "find (\<lambda>j. orderHash j = orderHash job) (overwriteJob job rows) = Some job"
  by (simp add: overwriteJob_def find_map_replace find_append_new)

lemma updateRfqmJobAsync_ok:
  "\<not> storeFails env (length (events w)) \<Longrightarrow>
   updateRfqmJobAsync env job w =
     (w\<lparr>store := (store w)\<lparr>jobs := overwriteJob job (jobs (store w))\<rparr>,
        events := events w @ [JobUpdated job]\<rparr>, True)"
  by (simp add: updateRfqmJobAsync_def)

lemma updateRfqmJobAsync_events:
  "\<exists>e. events (fst (updateRfqmJobAsync env job w)) = events w @ [e]"
  by (simp add: updateRfqmJobAsync_def)

lemma updateRfqmJobAsync_keeps:
  assumes "findV2JobByOrderHashAsync (store w) (orderHash job) = Some old"
    and "status old = status job" and "lastLookResult old = lastLookResult job"
  shows "\<exists>new. findV2JobByOrderHashAsync (store (fst (updateRfqmJobAsync env job w))) (orderHash job) = Some new
     \<and> status new = status job \<and> lastLookResult new = lastLookResult job"
  using assms
  by (simp add: updateRfqmJobAsync_def findV2JobByOrderHashAsync_def find_overwriteJob)

lemma priceCheck_events:
  "\<exists>after. events (declineToSignPriceCheck env job' otcOrder w) = events w @ [PriceRequested] @ after"
proof (cases "getPriceV2Async env")
  case (Inl e)
  then show ?thesis by (simp add: declineToSignPriceCheck_def)
next
  case (Inr answer)
  show ?thesis
  proof (cases answer)
    case None
    with Inr show ?thesis by (simp add: declineToSignPriceCheck_def)
  next
    case (Some priceResponse)
    with Inr show ?thesis
      by (simp add: declineToSignPriceCheck_def updateRfqmJobAsync_def Let_def)
  qed
qed

lemma priceCheck_keeps:
  assumes "findV2JobByOrderHashAsync (store w) (orderHash job') = Some old"
    and "status old = status job'" and "lastLookResult old = lastLookResult job'"
  shows "\<exists>new. findV2JobByOrderHashAsync (store (declineToSignPriceCheck env job' otcOrder w)) (orderHash job') = Some new
     \<and> status new = status job' \<and> lastLookResult new = lastLookResult job'"
proof (cases "getPriceV2Async env")
  case (Inl e)
  then show ?thesis using assms by (auto simp: declineToSignPriceCheck_def Let_def)
next
  case (Inr answer)
  show ?thesis
  proof (cases answer)
    case None
    with Inr show ?thesis using assms by (auto simp: declineToSignPriceCheck_def Let_def)
  next
    case (Some priceResponse)
    let ?j = "job'\<lparr>llRejectPriceDifferenceBps :=
                        Some (priceDifferenceBips env (makerAmount otcOrder) priceResponse)\<rparr>"
    let ?w1 = "w\<lparr>events := events w @ [PriceRequested]\<rparr>"
    have "\<exists>new. findV2JobByOrderHashAsync (store (fst (updateRfqmJobAsync env ?j ?w1))) (orderHash ?j) = Some new
     \<and> status new = status ?j \<and> lastLookResult new = lastLookResult ?j"
      using updateRfqmJobAsync_keeps [of ?w1 ?j old env] assms by simp
    with Inr Some show ?thesis
      by (simp add: declineToSignPriceCheck_def Let_def)
  qed
qed

lemma declineToSign_ok:
  assumes "\<not> storeFails env (length (events w))"
  shows "snd (declineToSign env job' otcOrder w) = Inl ''Market Maker declined to sign''
    \<and> (\<exists>new. findV2JobByOrderHashAsync (store (fst (declineToSign env job' otcOrder w))) (orderHash job') = Some new
          \<and> status new = FailedLastLookDeclined \<and> lastLookResult new = Some False)
    \<and> (\<exists>after. events (fst (declineToSign env job' otcOrder w)) =
          events w @ [JobUpdated (job'\<lparr>lastLookResult := Some False, status := FailedLastLookDeclined\<rparr>),
                      PriceRequested] @ after)"
proof -
  let ?d = "job'\<lparr>lastLookResult := Some False, status := FailedLastLookDeclined\<rparr>"
  let ?w1 = "w\<lparr>store := (store w)\<lparr>jobs := overwriteJob ?d (jobs (store w))\<rparr>,
        events := events w @ [JobUpdated ?d]\<rparr>"
  have r: "declineToSign env job' otcOrder w =
      (declineToSignPriceCheck env ?d otcOrder ?w1, Inl ''Market Maker declined to sign'')"
    using assms by (simp add: declineToSign_def updateRfqmJobAsync_ok Let_def)
  have f: "findV2JobByOrderHashAsync (store ?w1) (orderHash ?d) = Some ?d"
    using find_overwriteJob [of ?d "jobs (store w)"] by (simp add: findV2JobByOrderHashAsync_def)
  have k: "\<exists>new. findV2JobByOrderHashAsync (store (declineToSignPriceCheck env ?d otcOrder ?w1)) (orderHash ?d) = Some new
     \<and> status new = status ?d \<and> lastLookResult new = lastLookResult ?d"
    using priceCheck_keeps [OF f, of env otcOrder] by simp
  obtain after where ev: "events (declineToSignPriceCheck env ?d otcOrder ?w1) = events ?w1 @ [PriceRequested] @ after"
    using priceCheck_events by blast
  obtain new where nw: "findV2JobByOrderHashAsync (store (declineToSignPriceCheck env ?d otcOrder ?w1)) (orderHash job') = Some new"
    "status new = FailedLastLookDeclined" "lastLookResult new = Some False"
    using k by auto
  have "snd (declineToSign env job' otcOrder w) = Inl ''Market Maker declined to sign''"
    using r by simp
  moreover have "\<exists>new. findV2JobByOrderHashAsync (store (fst (declineToSign env job' otcOrder w))) (orderHash job') = Some new
          \<and> status new = FailedLastLookDeclined \<and> lastLookResult new = Some False"
    unfolding r using nw by auto
  moreover have "\<exists>after. events (fst (declineToSign env job' otcOrder w)) =
          events w @ [JobUpdated ?d, PriceRequested] @ after"
    unfolding r using ev by auto
  ultimately show ?thesis by blast
qed


lemma validateJob_None_takerSignature:
  "validateJob decodeExpiry job now = Inr None \<Longrightarrow> takerSignature job \<noteq> None"
  by (auto simp: validateJob_def Let_def split: if_splits option.splits sum.splits)

lemma requestMakerSignature_declined:
  assumes "getTokenBalancesAsync env = Inr (makerBalance, takerBalance)"
    and "makerAmount otcOrder \<le> makerBalance" and "takerAmount otcOrder \<le> takerBalance"
    and "retry 2 (signV2Async env) 0 = (attempts, Inr None)"
  shows "requestMakerSignature env job' otcOrder w =
     declineToSign env job' otcOrder
       (w\<lparr>events := events w @ BalancesRequested # replicate attempts SignRequested\<rparr>)"
  using assms by (simp add: requestMakerSignature_def Let_def not_less [symmetric])

lemma declineToSign_throws: "declineToSign env job' otcOrder w \<noteq> (w', Inr x)"
  by (auto simp: declineToSign_def Let_def split: prod.splits bool.splits)

lemma markProcessing_ok:
  assumes "status job' = PendingEnqueued \<longrightarrow> \<not> storeFails env (length (events w))"
  shows "\<exists>w1 pre. markProcessing env job' w =
        (w1, Inr (job'\<lparr>status := (if status job' = PendingEnqueued then PendingProcessing else status job')\<rparr>))
     \<and> events w1 = events w @ pre
     \<and> length pre = (if status job' = PendingEnqueued then 1 else 0)
     \<and> PriceRequested \<notin> set pre"
  using assms by (simp add: markProcessing_def updateRfqmJobAsync_ok)

lemma declineToSign_unsaved:
  assumes "storeFails env (length (events w))"
  shows "declineToSign env job' otcOrder w = (w\<lparr>events := events w @ [StoreFailed]\<rparr>, Inl storeError)"
  using assms by (simp add: declineToSign_def updateRfqmJobAsync_def Let_def)

text \<open>
  C6: in prepareV2JobAsync, when the maker's sign endpoint answers without a signature
  (after at most three attempts), the job is written with the status
  FailedLastLookDeclined and lastLookResult false before the price of the
  decline-to-sign check is requested. Once that write has succeeded, whatever the
  price request answers (an error, no price, a price) and whether or not saving the
  price difference fails, the function throws 'Market Maker declined to sign' and the
  stored job keeps the status FailedLastLookDeclined. If that write fails, its error is
  thrown and no price is requested.
\<close>

theorem decline_price_check_isolated:
  assumes conv: "storedOtcOrderToOtcOrder env (order job) = Inr otcOrder"
    and nosubs: "findV2TransactionSubmissionsByOrderHashAsync (store w) (orderHash job) = []"
    and valid: "validateJob (parseExpiry env) job now = Inr None"
    and unsigned: "makerSignature job = None"
    and claimed: "status job = PendingEnqueued \<longrightarrow> \<not> storeFails env (length (events w))"
    and balances: "getTokenBalancesAsync env = Inr (makerBalance, takerBalance)"
      "makerAmount otcOrder \<le> makerBalance" "takerAmount otcOrder \<le> takerBalance"
    and declined: "retry 2 (signV2Async env) 0 = (attempts, Inr None)"
  shows "(\<not> storeFails env (length (events w) + (if status job = PendingEnqueued then 1 else 0) + attempts + 1)
      \<longrightarrow> snd (prepareV2JobAsync env now w job) = Inl ''Market Maker declined to sign''
        \<and> (\<exists>saved. findV2JobByOrderHashAsync (store (fst (prepareV2JobAsync env now w job))) (orderHash job)
                = Some saved
              \<and> status saved = FailedLastLookDeclined \<and> lastLookResult saved = Some False)
        \<and> (\<exists>before after declinedJob.
              events (fst (prepareV2JobAsync env now w job)) =
                events w @ before @ [JobUpdated declinedJob, PriceRequested] @ after
              \<and> PriceRequested \<notin> set before
              \<and> status declinedJob = FailedLastLookDeclined \<and> lastLookResult declinedJob = Some False))
    \<and> (storeFails env (length (events w) + (if status job = PendingEnqueued then 1 else 0) + attempts + 1)
      \<longrightarrow> snd (prepareV2JobAsync env now w job) = Inl storeError
        \<and> (\<exists>new. events (fst (prepareV2JobAsync env now w job)) = events w @ new
              \<and> PriceRequested \<notin> set new))"
proof -
  obtain takerSig where ts: "takerSignature job = Some takerSig"
    using validateJob_None_takerSignature [OF valid] by auto
  let ?p = "job\<lparr>status := (if status job = PendingEnqueued then PendingProcessing else status job)\<rparr>"
  obtain w1 pre where mp: "markProcessing env job w = (w1, Inr ?p)"
    and ev1: "events w1 = events w @ pre"
    and len: "length pre = (if status job = PendingEnqueued then 1 else 0)"
    and pre: "PriceRequested \<notin> set pre"
    using markProcessing_ok [OF claimed] by blast
  let ?w2 = "w1\<lparr>events := events w1 @ BalancesRequested # replicate attempts SignRequested\<rparr>"
  let ?d = "?p\<lparr>lastLookResult := Some False, status := FailedLastLookDeclined\<rparr>"
  let ?k = "length (events w) + (if status job = PendingEnqueued then 1 else 0) + attempts + 1"
  have rq: "requestMakerSignature env ?p otcOrder w1 = declineToSign env ?p otcOrder ?w2"
    by (rule requestMakerSignature_declined [OF balances declined])
  have pr: "prepareV2JobAsync env now w job =
      (fst (declineToSign env ?p otcOrder ?w2),
       case snd (declineToSign env ?p otcOrder ?w2) of Inl e \<Rightarrow> Inl e | Inr x \<Rightarrow> Inl e')" for e'
    using conv nosubs valid ts mp unsigned rq declineToSign_throws [of env ?p otcOrder ?w2]
    by (cases "declineToSign env ?p otcOrder ?w2")
      (auto simp: prepareV2JobAsync_def prepareValidJob_def split: sum.splits)
  have k: "length (events ?w2) = ?k"
    using ev1 len by simp
  have saved: "snd (prepareV2JobAsync env now w job) = Inl ''Market Maker declined to sign''
        \<and> (\<exists>saved. findV2JobByOrderHashAsync (store (fst (prepareV2JobAsync env now w job))) (orderHash job)
                = Some saved
              \<and> status saved = FailedLastLookDeclined \<and> lastLookResult saved = Some False)
        \<and> (\<exists>before after declinedJob.
              events (fst (prepareV2JobAsync env now w job)) =
                events w @ before @ [JobUpdated declinedJob, PriceRequested] @ after
              \<and> PriceRequested \<notin> set before
              \<and> status declinedJob = FailedLastLookDeclined \<and> lastLookResult declinedJob = Some False)"
    if ok: "\<not> storeFails env ?k"
  proof -
    have "\<not> storeFails env (length (events ?w2))"
      using ok k by simp
    note d = declineToSign_ok [OF this, of ?p otcOrder]
    obtain w' where dw: "declineToSign env ?p otcOrder ?w2 = (w', Inl ''Market Maker declined to sign'')"
      using d by (cases "declineToSign env ?p otcOrder ?w2") auto
    have res: "prepareV2JobAsync env now w job = (w', Inl ''Market Maker declined to sign'')"
      using pr dw by simp
    obtain saved where sv: "findV2JobByOrderHashAsync (store w') (orderHash job) = Some saved"
      "status saved = FailedLastLookDeclined" "lastLookResult saved = Some False"
      using d dw by auto
    obtain after where af: "events w' = events ?w2 @ [JobUpdated ?d, PriceRequested] @ after"
      using d dw by auto
    have "events w' = events w @ (pre @ BalancesRequested # replicate attempts SignRequested)
        @ [JobUpdated ?d, PriceRequested] @ after"
      using af ev1 by simp
    moreover have "PriceRequested \<notin> set (pre @ BalancesRequested # replicate attempts SignRequested)"
      using pre by auto
    moreover have "status ?d = FailedLastLookDeclined \<and> lastLookResult ?d = Some False"
      by simp
    ultimately have "\<exists>before after declinedJob.
            events w' = events w @ before @ [JobUpdated declinedJob, PriceRequested] @ after
            \<and> PriceRequested \<notin> set before
            \<and> status declinedJob = FailedLastLookDeclined \<and> lastLookResult declinedJob = Some False"
      by blast
    then show ?thesis
      unfolding res using sv by auto
  qed
  have unsaved: "snd (prepareV2JobAsync env now w job) = Inl storeError
        \<and> (\<exists>new. events (fst (prepareV2JobAsync env now w job)) = events w @ new
              \<and> PriceRequested \<notin> set new)"
    if bad: "storeFails env ?k"
  proof -
    have "storeFails env (length (events ?w2))"
      using bad k by simp
    note d = declineToSign_unsaved [OF this, of ?p otcOrder]
    have res: "prepareV2JobAsync env now w job = (?w2\<lparr>events := events ?w2 @ [StoreFailed]\<rparr>, Inl storeError)"
      using pr d by simp
    have "events (?w2\<lparr>events := events ?w2 @ [StoreFailed]\<rparr>) =
        events w @ (pre @ BalancesRequested # replicate attempts SignRequested @ [StoreFailed])"
      using ev1 by simp
    moreover have "PriceRequested \<notin> set (pre @ BalancesRequested # replicate attempts SignRequested @ [StoreFailed])"
      using pre by auto
    ultimately show ?thesis
      unfolding res by (metis fst_conv snd_conv)
  qed
  show ?thesis
    using saved unsaved by blast
qed

theorem decline_price_check_isolated_witness:
  "snd (prepareV2JobAsync decliningEnv 1000000 (worldWith [sampleJob]) sampleJob)
     = Inl ''Market Maker declined to sign''
   \<and> (\<exists>saved. findV2JobByOrderHashAsync
          (store (fst (prepareV2JobAsync decliningEnv 1000000 (worldWith [sampleJob]) sampleJob))) ''0xHash''
            = Some saved \<and> status saved = FailedLastLookDeclined)
   \<and> snd (prepareV2JobAsync unsavedEnv 1000000 (worldWith [sampleJob]) sampleJob)
     = Inl ''Market Maker declined to sign''
   \<and> (\<exists>saved. findV2JobByOrderHashAsync
          (store (fst (prepareV2JobAsync unsavedEnv 1000000 (worldWith [sampleJob]) sampleJob))) ''0xHash''
            = Some saved \<and> status saved = FailedLastLookDeclined)
   \<and> snd (prepareV2JobAsync (unsavedEnv\<lparr>storeFails := (\<lambda>k. k = 3)\<rparr>) 1000000
          (worldWith [sampleJob]) sampleJob) = Inl storeError"
proof -
  have h: "orderHash sampleJob = ''0xHash''" "status sampleJob = PendingEnqueued"
    by (simp_all add: sampleJob_def)
  have l: "length (events (worldWith [sampleJob])) = 0"
    by (simp add: worldWith_def)
  have n: "findV2TransactionSubmissionsByOrderHashAsync (store (worldWith [sampleJob])) (orderHash sampleJob) = []"
    by (simp add: findV2TransactionSubmissionsByOrderHashAsync_def worldWith_def)
  have u: "makerSignature sampleJob = None"
    by (simp add: sampleJob_def)
  have a: "makerAmount sampleOtcOrder \<le> 1000" "takerAmount sampleOtcOrder \<le> 1000"
    by (simp_all add: sampleOtcOrder_def)
  have c1: "storedOtcOrderToOtcOrder decliningEnv (order sampleJob) = Inr sampleOtcOrder"
    by (simp add: decliningEnv_def sampleEnv_def sampleJob_def)
  have v1: "validateJob (parseExpiry decliningEnv) sampleJob 1000000 = Inr None"
    by (simp add: decliningEnv_def sampleEnv_def validateJob_def sampleJob_def sampleDecoder_def sampleOrder_def ONE_SECOND_MS_def)
  have b1: "getTokenBalancesAsync decliningEnv = Inr (1000, 1000)"
    by (simp add: decliningEnv_def sampleEnv_def)
  have d1: "retry 2 (signV2Async decliningEnv) 0 = (2, Inr None)"
    by (simp add: decliningEnv_def sampleEnv_def numeral_2_eq_2)
  have s1: "status sampleJob = PendingEnqueued \<longrightarrow> \<not> storeFails decliningEnv (length (events (worldWith [sampleJob])))"
    by (simp add: decliningEnv_def sampleEnv_def)
  have i1: "length (events (worldWith [sampleJob])) + (if status sampleJob = PendingEnqueued then 1 else 0) + 2 + 1 = 4"
    by (simp add: h l)
  have f1: "\<not> storeFails decliningEnv 4"
    by (simp add: decliningEnv_def sampleEnv_def)
  from decline_price_check_isolated [OF c1 n v1 u s1 b1 a d1, unfolded i1] f1
  have first: "snd (prepareV2JobAsync decliningEnv 1000000 (worldWith [sampleJob]) sampleJob)
     = Inl ''Market Maker declined to sign''
   \<and> (\<exists>saved. findV2JobByOrderHashAsync
          (store (fst (prepareV2JobAsync decliningEnv 1000000 (worldWith [sampleJob]) sampleJob))) ''0xHash''
            = Some saved \<and> status saved = FailedLastLookDeclined)"
    unfolding h by blast
  have c2: "storedOtcOrderToOtcOrder unsavedEnv (order sampleJob) = Inr sampleOtcOrder"
    by (simp add: unsavedEnv_def sampleEnv_def sampleJob_def)
  have v2: "validateJob (parseExpiry unsavedEnv) sampleJob 1000000 = Inr None"
    by (simp add: unsavedEnv_def sampleEnv_def validateJob_def sampleJob_def sampleDecoder_def sampleOrder_def ONE_SECOND_MS_def)
  have b2: "getTokenBalancesAsync unsavedEnv = Inr (1000, 1000)"
    by (simp add: unsavedEnv_def sampleEnv_def)
  have d2: "retry 2 (signV2Async unsavedEnv) 0 = (1, Inr None)"
    by (simp add: unsavedEnv_def sampleEnv_def numeral_2_eq_2)
  have s2: "status sampleJob = PendingEnqueued \<longrightarrow> \<not> storeFails unsavedEnv (length (events (worldWith [sampleJob])))"
    by (simp add: unsavedEnv_def sampleEnv_def worldWith_def)
  have i2: "length (events (worldWith [sampleJob])) + (if status sampleJob = PendingEnqueued then 1 else 0) + 1 + 1 = 3"
    by (simp add: h l)
  have f2: "\<not> storeFails unsavedEnv 3"
    by (simp add: unsavedEnv_def sampleEnv_def)
  from decline_price_check_isolated [OF c2 n v2 u s2 b2 a d2, unfolded i2] f2
  have second: "snd (prepareV2JobAsync unsavedEnv 1000000 (worldWith [sampleJob]) sampleJob)
     = Inl ''Market Maker declined to sign''
   \<and> (\<exists>saved. findV2JobByOrderHashAsync
          (store (fst (prepareV2JobAsync unsavedEnv 1000000 (worldWith [sampleJob]) sampleJob))) ''0xHash''
            = Some saved \<and> status saved = FailedLastLookDeclined)"
    unfolding h by blast
  let ?e = "unsavedEnv\<lparr>storeFails := (\<lambda>k. k = 3)\<rparr>"
  have c3: "storedOtcOrderToOtcOrder ?e (order sampleJob) = Inr sampleOtcOrder"
    by (simp add: unsavedEnv_def sampleEnv_def sampleJob_def)
  have v3: "validateJob (parseExpiry ?e) sampleJob 1000000 = Inr None"
    by (simp add: unsavedEnv_def sampleEnv_def validateJob_def sampleJob_def sampleDecoder_def sampleOrder_def ONE_SECOND_MS_def)
  have b3: "getTokenBalancesAsync ?e = Inr (1000, 1000)"
    by (simp add: unsavedEnv_def sampleEnv_def)
  have d3: "retry 2 (signV2Async ?e) 0 = (1, Inr None)"
    by (simp add: unsavedEnv_def sampleEnv_def numeral_2_eq_2)
  have s3: "status sampleJob = PendingEnqueued \<longrightarrow> \<not> storeFails ?e (length (events (worldWith [sampleJob])))"
    by (simp add: worldWith_def)
  have f3: "storeFails ?e 3"
    by simp
  from decline_price_check_isolated [OF c3 n v3 u s3 b3 a d3, unfolded i2] f3
  have third: "snd (prepareV2JobAsync ?e 1000000 (worldWith [sampleJob]) sampleJob) = Inl storeError"
    by blast
  show ?thesis
    using first second third by blast
qed

lemma noSignRequest_refl: "noSignRequest w w"
  by (simp add: noSignRequest_def)

lemma noSignRequest_trans: "noSignRequest w w1 \<Longrightarrow> noSignRequest w1 w2 \<Longrightarrow> noSignRequest w w2"
  by (auto simp: noSignRequest_def)

lemma updateRfqmJobAsync_noSign: "noSignRequest w (fst (updateRfqmJobAsync env job w))"
  by (simp add: updateRfqmJobAsync_def noSignRequest_def)

lemma updateRfqmJobAsync_noSign_eq:
  "updateRfqmJobAsync env job w = (w1, ok) \<Longrightarrow> noSignRequest w w1"
  using updateRfqmJobAsync_noSign [of w env job] by simp

lemma failWith_noSign: "noSignRequest w (fst (failWith env job' s m w))"
  by (auto simp: failWith_def split: prod.splits bool.splits dest: updateRfqmJobAsync_noSign_eq)

lemma markProcessing_noSign: "noSignRequest w (fst (markProcessing env job' w))"
  by (auto simp: markProcessing_def noSignRequest_refl split: prod.splits bool.splits
      dest: updateRfqmJobAsync_noSign_eq)

lemma verifySigner_noSign: "noSignRequest w (fst (verifySigner env job' makerSig w))"
proof -
  let ?w1 = "w\<lparr>events := events w @ [SignerChecked]\<rparr>"
  have a: "noSignRequest w ?w1"
    by (simp add: noSignRequest_def)
  have b: "noSignRequest w (fst (failWith env job' FailedSignFailed ''Invalid order signer address'' ?w1 :: World \<times> (string + unit)))"
    using noSignRequest_trans [OF a failWith_noSign] by blast
  show ?thesis
    using a b
    by (simp add: verifySigner_def Let_def noSignRequest_refl split: option.splits sum.splits)
qed

lemma ethCallValidation_noSign: "noSignRequest w (fst (ethCallValidation env job' w))"
proof -
  obtain attempts answer where r: "retry 2 (estimateGas env) 0 = (attempts, answer)"
    by (cases "retry 2 (estimateGas env) 0") auto
  let ?w1 = "w\<lparr>events := events w @ replicate attempts GasEstimated\<rparr>"
  have a: "noSignRequest w ?w1"
    by (simp add: noSignRequest_def)
  have u: "noSignRequest ?w1 (fst (updateRfqmJobAsync env (job'\<lparr>status := FailedEthCallFailed\<rparr>) ?w1))"
    by (rule updateRfqmJobAsync_noSign)
  have b: "noSignRequest w (fst (updateRfqmJobAsync env (job'\<lparr>status := FailedEthCallFailed\<rparr>) ?w1))"
    using noSignRequest_trans [OF a u] .
  have c: "noSignRequest w w2 \<Longrightarrow> noSignRequest w (w2\<lparr>events := events w2 @ [BalancesRequested]\<rparr>)" for w2
    by (auto simp: noSignRequest_def)
  show ?thesis
    using a b c r
    by (auto simp: ethCallValidation_def Let_def split: sum.splits prod.splits bool.splits)
qed

lemma prepareValidJob_signed_noSign:
  assumes "makerSignature job' \<noteq> None"
  shows "noSignRequest w (fst (prepareValidJob env w job' otcOrder))"
proof (cases "takerSignature job'")
  case None
  then show ?thesis by (simp add: prepareValidJob_def noSignRequest_refl)
next
  case (Some takerSig)
  obtain w1 r1 where m: "markProcessing env job' w = (w1, r1)"
    by (cases "markProcessing env job' w") auto
  have n1: "noSignRequest w w1"
    using markProcessing_noSign [of w env job'] m by simp
  show ?thesis
  proof (cases r1)
    case (Inl e)
    then show ?thesis using Some m n1 by (simp add: prepareValidJob_def)
  next
    case (Inr processing)
    then have ms: "makerSignature processing \<noteq> None"
      using m assms by (auto simp: markProcessing_def split: if_splits prod.splits bool.splits)
    then obtain makerSig where mk: "makerSignature processing = Some makerSig"
      by auto
    obtain w3 r3 where v: "verifySigner env processing makerSig w1 = (w3, r3)"
      by (cases "verifySigner env processing makerSig w1") auto
    have n3: "noSignRequest w w3"
      using noSignRequest_trans [OF n1 verifySigner_noSign [of w1 env processing makerSig]] v by simp
    have n4: "noSignRequest w (fst (ethCallValidation env processing w3))"
      using noSignRequest_trans [OF n3 ethCallValidation_noSign] .
    show ?thesis
      using Some m Inr mk v n3 n4
      by (auto simp: prepareValidJob_def Let_def split: sum.splits prod.splits)
  qed
qed

lemma prepareV2JobAsync_signed_noSign:
  assumes "makerSignature job \<noteq> None"
  shows "noSignRequest w (fst (prepareV2JobAsync env now w job))"
  using prepareValidJob_signed_noSign [OF assms, of w env] failWith_noSign [of w env job]
  by (auto simp: prepareV2JobAsync_def noSignRequest_refl split: sum.splits option.splits)


lemma failWith_throws: "failWith env job' s m w \<noteq> (w', Inr x)"
  by (auto simp: failWith_def split: prod.splits bool.splits)

lemma markProcessing_result:
  "markProcessing env job' w = (w1, Inr processing) \<Longrightarrow>
   processing = job' \<or> processing = job'\<lparr>status := PendingProcessing\<rparr>"
  by (auto simp: markProcessing_def split: if_splits prod.splits bool.splits)

lemma requestMakerSignature_result:
  assumes "requestMakerSignature env job' otcOrder w = (w2, Inr (signedJob, makerSig))"
  shows "\<exists>padded. signedJob = job'\<lparr>makerSignature := Some padded, lastLookResult := Some True,
                                   status := PendingLastLookAccepted\<rparr>"
proof (cases "getTokenBalancesAsync env")
  case (Inl e)
  with assms show ?thesis by (simp add: requestMakerSignature_def Let_def)
next
  case (Inr balances)
  obtain makerBalance takerBalance where b: "balances = (makerBalance, takerBalance)"
    by (cases balances) auto
  obtain attempts answer where r: "retry 2 (signV2Async env) 0 = (attempts, answer)"
    by (cases "retry 2 (signV2Async env) 0") auto
  show ?thesis
  proof (cases answer)
    case (Inl e)
    with assms Inr b r show ?thesis
      by (simp add: requestMakerSignature_def Let_def failWith_throws split: if_splits)
  next
    case signed: (Inr gotten)
    show ?thesis
    proof (cases gotten)
      case None
      with assms Inr b r signed show ?thesis
        by (simp add: requestMakerSignature_def Let_def failWith_throws declineToSign_throws
            split: if_splits)
    next
      case (Some sg)
      with assms Inr b r signed show ?thesis
        by (auto simp: requestMakerSignature_def Let_def failWith_throws
            split: if_splits prod.splits bool.splits)
    qed
  qed
qed

lemma prepareValidJob_result:
  assumes "prepareValidJob env w job' otcOrder = (w', Inr (calldata, prepared))"
  shows "\<exists>makerSig takerSig. makerSignature prepared = Some makerSig
      \<and> takerSignature prepared = Some takerSig
      \<and> calldata = generateTakerSignedOtcOrderCallData otcOrder makerSig takerSig
                     (isUnwrap prepared) (affiliateAddress prepared)
      \<and> order prepared = order job' \<and> orderHash prepared = orderHash job'"
proof (cases "takerSignature job'")
  case None
  with assms show ?thesis by (simp add: prepareValidJob_def)
next
  case (Some takerSig)
  obtain w1 r1 where m: "markProcessing env job' w = (w1, r1)"
    by (cases "markProcessing env job' w") auto
  show ?thesis
  proof (cases r1)
    case (Inl e)
    with assms Some m show ?thesis by (simp add: prepareValidJob_def)
  next
    case (Inr processing)
    have p: "processing = job' \<or> processing = job'\<lparr>status := PendingProcessing\<rparr>"
      using markProcessing_result m Inr by blast
    obtain w2 r2 where s: "(case makerSignature processing of
                        Some makerSig \<Rightarrow> (w1, Inr (processing, makerSig))
                      | None \<Rightarrow> requestMakerSignature env processing otcOrder w1) = (w2, r2)"
      by (cases "(case makerSignature processing of
                        Some makerSig \<Rightarrow> (w1, Inr (processing, makerSig))
                      | None \<Rightarrow> requestMakerSignature env processing otcOrder w1)") auto
    show ?thesis
    proof (cases r2)
      case (Inl e)
      with assms Some m Inr s show ?thesis by (simp add: prepareValidJob_def)
    next
      case signed: (Inr pair)
      obtain signedJob makerSig where pr: "pair = (signedJob, makerSig)"
        by (cases pair) auto
      have sj: "signedJob = processing
          \<or> (\<exists>padded. signedJob = processing\<lparr>makerSignature := Some padded, lastLookResult := Some True,
                                   status := PendingLastLookAccepted\<rparr>)"
        using s signed pr requestMakerSignature_result [of env processing otcOrder w1 w2 signedJob makerSig]
        by (auto split: option.splits)
      have keep: "takerSignature signedJob = Some takerSig \<and> order signedJob = order job'
          \<and> orderHash signedJob = orderHash job'"
        using sj p Some by auto
      have out: "prepared = signedJob \<and> (\<exists>jobMakerSig. makerSignature signedJob = Some jobMakerSig
          \<and> calldata = generateTakerSignedOtcOrderCallData otcOrder jobMakerSig takerSig
                     (isUnwrap signedJob) (affiliateAddress signedJob))"
        using assms Some m Inr s signed pr
        by (auto simp: prepareValidJob_def Let_def split: sum.splits prod.splits option.splits)
      show ?thesis
        using keep out by auto
    qed
  qed
qed

lemma prepareV2JobAsync_result:
  assumes "prepareV2JobAsync env now w job = (w', Inr (calldata, prepared))"
  shows "\<exists>otcOrder makerSig takerSig. storedOtcOrderToOtcOrder env (order prepared) = Inr otcOrder
      \<and> makerSignature prepared = Some makerSig \<and> takerSignature prepared = Some takerSig
      \<and> calldata = generateTakerSignedOtcOrderCallData otcOrder makerSig takerSig
                     (isUnwrap prepared) (affiliateAddress prepared)
      \<and> orderHash prepared = orderHash job"
proof (cases "storedOtcOrderToOtcOrder env (order job)")
  case (Inl e)
  with assms show ?thesis by (simp add: prepareV2JobAsync_def)
next
  case (Inr otcOrder)
  show ?thesis
  proof (cases "findV2TransactionSubmissionsByOrderHashAsync (store w) (orderHash job) \<noteq> []")
    case True
    with assms Inr show ?thesis
      by (auto simp: prepareV2JobAsync_def split: option.splits)
  next
    case False
    with assms Inr have "prepareValidJob env w job otcOrder = (w', Inr (calldata, prepared))"
      by (auto simp: prepareV2JobAsync_def failWith_throws split: option.splits sum.splits)
    from prepareValidJob_result [OF this] Inr show ?thesis
      by auto
  qed
qed

lemma prepareV2JobAsync_submitted:
  assumes "findV2TransactionSubmissionsByOrderHashAsync (store w) (orderHash job) \<noteq> []"
    and "storedOtcOrderToOtcOrder env (order job) = Inr otcOrder"
    and "makerSignature job = Some makerSig" and "takerSignature job = Some takerSig"
  shows "prepareV2JobAsync env now w job =
     (w, Inr (generateTakerSignedOtcOrderCallData otcOrder makerSig takerSig
                (isUnwrap job) (affiliateAddress job), job))"
  using assms by (simp add: prepareV2JobAsync_def)

text \<open>
  C7: prepareV2JobAsync is idempotent on prepared jobs. When a preparation has returned
  a job and its call data and a submission is then recorded for the job, preparing the
  returned job again gives the same call data and the same job and leaves the world as
  it was: no signature is requested from the maker and nothing is written, so the
  status and the maker signature stay. In general a job with a submission and both
  signatures gets the call data built from its recorded signatures, the world
  untouched. For a job with a recorded maker signature and no submission, the
  preparation makes no sign request.
\<close>

theorem prepare_idempotent:
  "(prepareV2JobAsync env now w job = (w1, Inr (calldata, prepared))
      \<and> findV2TransactionSubmissionsByOrderHashAsync (store w2) (orderHash prepared) \<noteq> []
      \<and> storedOtcOrderToOtcOrder env2 = storedOtcOrderToOtcOrder env
      \<longrightarrow> prepareV2JobAsync env2 now2 w2 prepared = (w2, Inr (calldata, prepared)))
   \<and> (findV2TransactionSubmissionsByOrderHashAsync (store w) (orderHash job) \<noteq> []
      \<and> storedOtcOrderToOtcOrder env (order job) = Inr otcOrder
      \<and> makerSignature job = Some makerSig \<and> takerSignature job = Some takerSig
      \<longrightarrow> prepareV2JobAsync env now w job =
            (w, Inr (generateTakerSignedOtcOrderCallData otcOrder makerSig takerSig
                       (isUnwrap job) (affiliateAddress job), job)))
   \<and> (findV2TransactionSubmissionsByOrderHashAsync (store w) (orderHash job) = []
      \<and> makerSignature job \<noteq> None
      \<longrightarrow> (\<exists>new. events (fst (prepareV2JobAsync env now w job)) = events w @ new
             \<and> SignRequested \<notin> set new))"
proof -
  have first: "prepareV2JobAsync env2 now2 w2 prepared = (w2, Inr (calldata, prepared))"
    if a: "prepareV2JobAsync env now w job = (w1, Inr (calldata, prepared))"
      and b: "findV2TransactionSubmissionsByOrderHashAsync (store w2) (orderHash prepared) \<noteq> []"
      and c: "storedOtcOrderToOtcOrder env2 = storedOtcOrderToOtcOrder env"
  proof -
    obtain otc ms ts where r: "storedOtcOrderToOtcOrder env (order prepared) = Inr otc"
      "makerSignature prepared = Some ms" "takerSignature prepared = Some ts"
      "calldata = generateTakerSignedOtcOrderCallData otc ms ts (isUnwrap prepared) (affiliateAddress prepared)"
      using prepareV2JobAsync_result [OF a] by blast
    show ?thesis
      using prepareV2JobAsync_submitted [OF b, of env2 otc ms ts now2] r c by simp
  qed
  have third: "\<exists>new. events (fst (prepareV2JobAsync env now w job)) = events w @ new \<and> SignRequested \<notin> set new"
    if "makerSignature job \<noteq> None"
    using prepareV2JobAsync_signed_noSign [OF that, of w env now] by (simp add: noSignRequest_def)
  show ?thesis
    using first third prepareV2JobAsync_submitted by blast
qed


theorem prepare_idempotent_witness:
  "\<exists>w1 calldata prepared.
      prepareV2JobAsync sampleEnv 1000000 (worldWith [sampleJob]) sampleJob = (w1, Inr (calldata, prepared))
      \<and> status prepared = PendingLastLookAccepted
      \<and> prepareV2JobAsync sampleEnv 2000000 submittedWorld prepared = (submittedWorld, Inr (calldata, prepared))
      \<and> (\<exists>new. events (fst (prepareV2JobAsync sampleEnv 1000000 (worldWith [prepared]) prepared)) = new
            \<and> SignRequested \<notin> set new)"
proof -
  have run: "\<exists>w1 calldata prepared.
      prepareV2JobAsync sampleEnv 1000000 (worldWith [sampleJob]) sampleJob = (w1, Inr (calldata, prepared))
      \<and> status prepared = PendingLastLookAccepted \<and> makerSignature prepared \<noteq> None"
    by (simp add: prepareV2JobAsync_def prepareValidJob_def markProcessing_def requestMakerSignature_def
        verifySigner_def ethCallValidation_def updateRfqmJobAsync_def validateJob_def
        findV2TransactionSubmissionsByOrderHashAsync_def worldWith_def sampleEnv_def sampleJob_def
        sampleOrder_def sampleOtcOrder_def sampleSignature_def sampleDecoder_def ONE_SECOND_MS_def
        toLowerCase_def lowerChar_def char_of_def bit_0 numeral_2_eq_2 Let_def)
  then obtain w1 calldata prepared where
    r: "prepareV2JobAsync sampleEnv 1000000 (worldWith [sampleJob]) sampleJob = (w1, Inr (calldata, prepared))"
    and st: "status prepared = PendingLastLookAccepted" and ms: "makerSignature prepared \<noteq> None"
    by blast
  have h: "orderHash prepared = ''0xHash''"
    using prepareV2JobAsync_result [OF r] by (auto simp: sampleJob_def)
  have s: "findV2TransactionSubmissionsByOrderHashAsync (store submittedWorld) (orderHash prepared) \<noteq> []"
    by (simp add: h findV2TransactionSubmissionsByOrderHashAsync_def submittedWorld_def sampleSubmission_def)
  have n: "findV2TransactionSubmissionsByOrderHashAsync (store (worldWith [prepared])) (orderHash prepared) = []"
    by (simp add: findV2TransactionSubmissionsByOrderHashAsync_def worldWith_def)
  have again: "prepareV2JobAsync sampleEnv 2000000 submittedWorld prepared = (submittedWorld, Inr (calldata, prepared))"
    using prepare_idempotent [of sampleEnv 1000000 "worldWith [sampleJob]" sampleJob w1 calldata prepared
        submittedWorld sampleEnv 2000000] r s by blast
  have skip: "\<exists>new. events (fst (prepareV2JobAsync sampleEnv 1000000 (worldWith [prepared]) prepared)) = new
            \<and> SignRequested \<notin> set new"
    using prepare_idempotent [of sampleEnv 1000000 "worldWith [prepared]" prepared] n ms
    by (simp add: worldWith_def)
  show ?thesis
    using r st again skip by blast
qed

end
